theory Spec2Isabelle
  imports Complex_Main "HOL-Library.AList" "HOL-Library.Log_Nat"
begin

section \<open>Python values and errors\<close>

text \<open>
  The anatomical workflow builder of fmriprep-rodents
  (\<^verbatim>\<open>src/fmriprep/patch/workflows/anatomical.py\<close>) is embedded as HOL functions.
  Python objects that the builder passes around are values of \<open>pyval\<close>; every
  \<^verbatim>\<open>raise\<close> of the source, and every failing index or key lookup, is the \<open>Inl\<close>
  branch of a sum.
\<close>

datatype pyval =
    PNone
  | PBool bool
  | PInt int
  | PStr string
  | PPath string
  | PList "pyval list"
  | PTuple "pyval list"

datatype error =
    IndexError
  | KeyError string
  | NotImplementedError string
  | LoadError string

section \<open>The helper \<^verbatim>\<open>_pop\<close>\<close>

text \<open>
  \<^verbatim>\<open>
  def _pop(inlist):
      if isinstance(inlist, (list, tuple)):
          return inlist[0]
      return inlist
  \<close>
  The same four lines stand in \<^verbatim>\<open>anatomical.py\<close> and in
  \<^verbatim>\<open>src/fprodents/tests/rs_fmri.py\<close>. \<^verbatim>\<open>inlist[0]\<close> on an empty list or tuple
  raises IndexError.
\<close>

fun isinstance_list_tuple :: "pyval \<Rightarrow> bool" where
  "isinstance_list_tuple (PList xs) = True"
| "isinstance_list_tuple (PTuple xs) = True"
| "isinstance_list_tuple v = False"

fun getitem0 :: "pyval list \<Rightarrow> error + pyval" where
  "getitem0 [] = Inl IndexError"
| "getitem0 (x # xs) = Inr x"

fun pop :: "pyval \<Rightarrow> error + pyval" where
  "pop (PList xs) = getitem0 xs"
| "pop (PTuple xs) = getitem0 xs"
| "pop v = Inr v"

section \<open>Single-precision numbers\<close>

text \<open>
  \<^verbatim>\<open>get_fdata(dtype=np.float32)\<close> yields binary32 voxels, a slice sum is a binary32
  scalar and so is each sum of two of them. Every finite binary32 number is an integer
  multiple of \<open>2\<^sup>-\<^sup>1\<^sup>4\<^sup>9\<close>, the smallest subnormal, so \<open>Finite n\<close> stands for
  \<open>n \<times> 2\<^sup>-\<^sup>1\<^sup>4\<^sup>9\<close>; the two zeros are not told apart. The representable magnitudes
  are the integers with at most 24 significant bits below \<open>2\<^sup>2\<^sup>7\<^sup>7\<close> (that is, below
  \<open>2\<^sup>1\<^sup>2\<^sup>8\<close>). The sum of two finite numbers is exact as an integer and is then rounded
  to 24 significant bits, to nearest with ties to even; a rounded magnitude of
  \<open>2\<^sup>2\<^sup>7\<^sup>7\<close> or more overflows to infinity. The comparison \<^verbatim>\<open>sidevals < 10\<close> is
  against the integer 10, which is exact, and is false for NaN. Nothing below needs a
  voxel to be representable: the theorems hold for every \<open>Finite n\<close>.
\<close>

datatype float32 = Finite int | PosInf | NegInf | NaN

definition unit_exponent :: nat where
  "unit_exponent = 149"

definition float32_of_int :: "int \<Rightarrow> float32" where
  "float32_of_int k = Finite (k * 2 ^ unit_exponent)"

definition round_half_even :: "int \<Rightarrow> nat \<Rightarrow> int" where
  "round_half_even m s =
     (let q = m div 2 ^ s; r = m mod 2 ^ s
      in if 2 * r < 2 ^ s then q
         else if 2 ^ s < 2 * r then q + 1
         else if even q then q else q + 1)"

definition round32 :: "int \<Rightarrow> float32" where
  "round32 n =
     (let m = \<bar>n\<bar>;
          s = nat (bitlen m - 24);
          r = round_half_even m s * 2 ^ s
      in if 2 ^ 277 \<le> r then (if n < 0 then NegInf else PosInf)
         else Finite (if n < 0 then - r else r))"

fun add32 :: "float32 \<Rightarrow> float32 \<Rightarrow> float32" where
  "add32 (Finite a) (Finite b) = round32 (a + b)"
| "add32 NaN y = NaN"
| "add32 x NaN = NaN"
| "add32 PosInf NegInf = NaN"
| "add32 NegInf PosInf = NaN"
| "add32 PosInf y = PosInf"
| "add32 x PosInf = PosInf"
| "add32 NegInf y = NegInf"
| "add32 x NegInf = NegInf"

fun abs32 :: "float32 \<Rightarrow> float32" where
  "abs32 (Finite a) = Finite \<bar>a\<bar>"
| "abs32 PosInf = PosInf"
| "abs32 NegInf = PosInf"
| "abs32 NaN = NaN"

fun less_int :: "float32 \<Rightarrow> int \<Rightarrow> bool" where
  "less_int (Finite a) k = (a < k * 2 ^ unit_exponent)"
| "less_int NegInf k = True"
| "less_int PosInf k = False"
| "less_int NaN k = False"


section \<open>The probe classifier \<^verbatim>\<open>_is_skull_stripped\<close>\<close>

text \<open>
  \<^verbatim>\<open>
  def _is_skull_stripped(imgs):
      def _check_img(img):
          data = np.abs(nb.load(img).get_fdata(dtype=np.float32))
          sidevals = data[0, :, :].sum() + data[-1, :, :].sum() + \
              data[:, 0, :].sum() + data[:, -1, :].sum() + \
              data[:, :, 0].sum() + data[:, :, -1].sum()
          return sidevals < 10
      return all(_check_img(img) for img in imgs)
  \<close>
  A loaded image is a three-dimensional array: its shape and its binary32 voxel values
  by index. Reading the file is the parameter \<open>load\<close> (nibabel is outside the
  repository); a file that cannot be read is a \<open>LoadError\<close>. The reduction
  \<^verbatim>\<open>.sum()\<close> of a two-dimensional slice is the parameter \<open>red\<close> (in the
  environment, \<open>np_sum\<close>): the order in which numpy adds the elements of a slice, and
  so the rounding of its result, is numpy's own and is not fixed by the source. It may
  depend on the memory layout of the slice, so the reduction is also given the axis the
  slice was cut along. Indexing an axis follows Python: a negative index
  counts from the end, and an index outside the axis raises IndexError, which is what
  \<^verbatim>\<open>data[0, :, :]\<close> does on an axis of size zero. The six slice sums are added from
  left to right, each addition rounded, and \<^verbatim>\<open>all\<close> over the generator stops at the
  first image that is not skull-stripped.
\<close>

record ndarray =
  shape :: "nat \<times> nat \<times> nat"
  item :: "nat \<Rightarrow> nat \<Rightarrow> nat \<Rightarrow> float32"

type_synonym loader = "string \<Rightarrow> error + ndarray"

type_synonym reduction = "nat \<Rightarrow> float32 list list \<Rightarrow> float32"

definition np_abs :: "ndarray \<Rightarrow> ndarray" where
  "np_abs a = a\<lparr>item := \<lambda>i j k. abs32 (item a i j k)\<rparr>"

definition axis_index :: "nat \<Rightarrow> int \<Rightarrow> error + nat" where
  "axis_index n i =
     (let j = (if i < 0 then int n + i else i)
      in if 0 \<le> j \<and> j < int n then Inr (nat j) else Inl IndexError)"

definition plane0 :: "ndarray \<Rightarrow> int \<Rightarrow> error + float32 list list" where
  "plane0 a i = (case shape a of (nx, ny, nz) \<Rightarrow>
     (case axis_index nx i of Inl e \<Rightarrow> Inl e
      | Inr i' \<Rightarrow> Inr (map (\<lambda>j. map (\<lambda>k. item a i' j k) [0..<nz]) [0..<ny])))"

definition plane1 :: "ndarray \<Rightarrow> int \<Rightarrow> error + float32 list list" where
  "plane1 a j = (case shape a of (nx, ny, nz) \<Rightarrow>
     (case axis_index ny j of Inl e \<Rightarrow> Inl e
      | Inr j' \<Rightarrow> Inr (map (\<lambda>i. map (\<lambda>k. item a i j' k) [0..<nz]) [0..<nx])))"

definition plane2 :: "ndarray \<Rightarrow> int \<Rightarrow> error + float32 list list" where
  "plane2 a k = (case shape a of (nx, ny, nz) \<Rightarrow>
     (case axis_index nz k of Inl e \<Rightarrow> Inl e
      | Inr k' \<Rightarrow> Inr (map (\<lambda>i. map (\<lambda>j. item a i j k') [0..<ny]) [0..<nx])))"

fun add_sums ::
  "reduction \<Rightarrow> float32 \<Rightarrow> (nat \<times> (error + float32 list list)) list \<Rightarrow> error + float32" where
  "add_sums red acc [] = Inr acc"
| "add_sums red acc ((axis, p) # ps) =
     (case p of Inl e \<Rightarrow> Inl e
      | Inr rows \<Rightarrow> add_sums red (add32 acc (red axis rows)) ps)"

definition sidevals :: "reduction \<Rightarrow> ndarray \<Rightarrow> error + float32" where
  "sidevals red data =
     (case plane0 data 0 of Inl e \<Rightarrow> Inl e
      | Inr rows \<Rightarrow>
          add_sums red (red 0 rows)
            [(0, plane0 data (- 1)),
             (1, plane1 data 0), (1, plane1 data (- 1)),
             (2, plane2 data 0), (2, plane2 data (- 1))])"

definition check_img :: "reduction \<Rightarrow> loader \<Rightarrow> string \<Rightarrow> error + bool" where
  "check_img red load img =
     (case load img of Inl e \<Rightarrow> Inl e
      | Inr raw \<Rightarrow>
          (case sidevals red (np_abs raw) of Inl e \<Rightarrow> Inl e
           | Inr s \<Rightarrow> Inr (less_int s 10)))"

fun is_skull_stripped :: "reduction \<Rightarrow> loader \<Rightarrow> string list \<Rightarrow> error + bool" where
  "is_skull_stripped red load [] = Inr True"
| "is_skull_stripped red load (img # imgs) =
     (case check_img red load img of Inl e \<Rightarrow> Inl e
      | Inr b \<Rightarrow> if b then is_skull_stripped red load imgs else Inr False)"

text \<open>
  The rule as the specification words it, over index ranges: the two end-slices along
  each of the three axes, their sums added in binary32, and, for comparison, the exact
  sum of the same absolute intensities (in units of \<open>2\<^sup>-\<^sup>1\<^sup>4\<^sup>9\<close>, counting finite
  values). \<open>sums_zeros\<close> says of a reduction that it returns zero for a slice of zeros.
\<close>

definition nonempty_axes :: "ndarray \<Rightarrow> bool" where
  "nonempty_axes a = (case shape a of (nx, ny, nz) \<Rightarrow> 0 < nx \<and> 0 < ny \<and> 0 < nz)"

definition grid :: "nat \<Rightarrow> nat \<Rightarrow> (nat \<Rightarrow> nat \<Rightarrow> 'a) \<Rightarrow> 'a list list" where
  "grid n m f = map (\<lambda>i. map (\<lambda>j. f i j) [0..<m]) [0..<n]"

definition end_slices ::
  "ndarray \<Rightarrow> float32 list list \<times> (nat \<times> float32 list list) list" where
  "end_slices a = (case shape a of (nx, ny, nz) \<Rightarrow>
     (grid ny nz (\<lambda>j k. abs32 (item a 0 j k)),
      [(0, grid ny nz (\<lambda>j k. abs32 (item a (nx - 1) j k))),
       (1, grid nx nz (\<lambda>i k. abs32 (item a i 0 k))),
       (1, grid nx nz (\<lambda>i k. abs32 (item a i (ny - 1) k))),
       (2, grid nx ny (\<lambda>i j. abs32 (item a i j 0))),
       (2, grid nx ny (\<lambda>i j. abs32 (item a i j (nz - 1))))]))"

definition float32_faces_sum :: "reduction \<Rightarrow> ndarray \<Rightarrow> float32" where
  "float32_faces_sum red a =
     (case end_slices a of (first, others) \<Rightarrow>
        foldl add32 (red 0 first) (map (\<lambda>(axis, rows). red axis rows) others))"

fun units :: "float32 \<Rightarrow> int" where
  "units (Finite a) = a"
| "units x = 0"

definition slice_units :: "float32 list list \<Rightarrow> int" where
  "slice_units rows = sum_list (map (\<lambda>row. sum_list (map units row)) rows)"

definition exact_faces_units :: "ndarray \<Rightarrow> int" where
  "exact_faces_units a =
     (case end_slices a of (first, others) \<Rightarrow>
        sum_list (map slice_units (first # map snd others)))"

definition faces_zero :: "ndarray \<Rightarrow> bool" where
  "faces_zero a = (case shape a of (nx, ny, nz) \<Rightarrow>
     (\<forall>i \<in> {..<nx}. \<forall>j \<in> {..<ny}. \<forall>k \<in> {..<nz}.
        i = 0 \<or> i = nx - 1 \<or> j = 0 \<or> j = ny - 1 \<or> k = 0 \<or> k = nz - 1
          \<longrightarrow> item a i j k = Finite 0))"

definition sums_zeros :: "reduction \<Rightarrow> bool" where
  "sums_zeros red =
     (\<forall>axis rows. (\<forall>row \<in> set rows. \<forall>x \<in> set row. x = Finite 0)
        \<longrightarrow> red axis rows = Finite 0)"

text \<open>
  A reduction that adds the elements one after another, and three synthetic volumes: a
  3x3x3 volume that is zero on all six faces with a bright centre voxel, a 10x10x10
  volume of constant intensity 1, and a 3x3x3 volume whose six face centres hold
  \<open>10 - 2\<^sup>-\<^sup>2\<^sup>0\<close> and five times \<open>2\<^sup>-\<^sup>2\<^sup>2\<close>, all else zero.
\<close>

definition sequential_sum :: reduction where
  "sequential_sum axis rows = foldl add32 (Finite 0) (concat rows)"

definition zero_bordered :: ndarray where
  "zero_bordered = \<lparr>shape = (3, 3, 3),
     item = (\<lambda>i j k. if i = 1 \<and> j = 1 \<and> k = 1 then float32_of_int 100 else Finite 0)\<rparr>"

definition uniform_ones :: ndarray where
  "uniform_ones = \<lparr>shape = (10, 10, 10), item = (\<lambda>i j k. float32_of_int 1)\<rparr>"

definition near_ten :: ndarray where
  "near_ten = \<lparr>shape = (3, 3, 3),
     item = (\<lambda>i j k.
       if i = 0 \<and> j = 1 \<and> k = 1 then Finite ((10 * 2 ^ 20 - 1) * 2 ^ 129)
       else if (i = 2 \<and> j = 1 \<and> k = 1) \<or> (i = 1 \<and> j = 0 \<and> k = 1) \<or>
               (i = 1 \<and> j = 2 \<and> k = 1) \<or> (i = 1 \<and> j = 1 \<and> k = 0) \<or>
               (i = 1 \<and> j = 1 \<and> k = 2) then Finite (2 ^ 127)
       else Finite 0)\<rparr>"

section \<open>Workflow graphs\<close>

text \<open>
  The nipype engine is outside the repository; the builder uses only its constructors
  (\<^verbatim>\<open>Workflow\<close>, \<^verbatim>\<open>pe.Node\<close>), attribute assignment on a node and
  \<^verbatim>\<open>workflow.connect\<close>. A node is its name, the interface it wraps, the inputs
  assigned so far, its iterables and the keyword arguments it was created with. A
  sub-workflow built by a function of another package (smriprep, nirodents) is an opaque
  node that records the builder and the arguments of the call; it is named after the
  variable that holds it. The constructors of these packages are taken to succeed for
  every argument: the errors of the model are the ones the builder's own statements
  raise.
\<close>

datatype interface =
    IdentityInterface "string list"
  | KeySelect "string list" pyval
  | ValidateImage
  | Function string
  | FAST "(string \<times> pyval) list"
  | SubWorkflow string "(string \<times> pyval) list"

record node =
  node_name :: string
  interface :: interface
  inputs :: "(string \<times> pyval) list"
  iterables :: "(string \<times> pyval) list"
  node_kwargs :: "(string \<times> pyval) list"

text \<open>
  A connection source is an output port, or a pair of a port and a function applied to
  the value on the way, as in \<^verbatim>\<open>(('outputnode.out_corrected', _pop), 't2w_preproc')\<close>.
  The workflow text \<^verbatim>\<open>__desc__\<close> is kept by its shape and the values formatted
  into it (number of images, ANTs version, FSL version, template name).
\<close>

datatype source = Out string | OutVia string string

type_synonym edge = "string \<times> source \<times> string \<times> string"

datatype boilerplate = ReusedText | ComputedText nat string string string

record workflow =
  wf_name :: string
  wf_desc :: "boilerplate option"
  nodes :: "node list"
  edges :: "edge list"

text \<open>
  \<^verbatim>\<open>connect\<close> registers the two nodes of each connection unless a node of that name
  is already in the graph, and appends the edges in the order written. The engine's own
  validation of port names is not modelled: a connection is recorded as written, also
  the one of the compute path from \<^verbatim>\<open>t2w_ref_xfms\<close>, a port that the output
  interface does not declare. Assigning to \<^verbatim>\<open>node.inputs.field\<close>
  updates the node in the graph: at each such assignment of the source the node has
  already been connected.
\<close>

definition Workflow :: "string \<Rightarrow> workflow" where
  "Workflow nm = \<lparr>wf_name = nm, wf_desc = None, nodes = [], edges = []\<rparr>"

definition Node :: "interface \<Rightarrow> string \<Rightarrow> (string \<times> pyval) list \<Rightarrow> node" where
  "Node iface nm kwargs =
     \<lparr>node_name = nm, interface = iface, inputs = [], iterables = [], node_kwargs = kwargs\<rparr>"

definition has_node :: "workflow \<Rightarrow> string \<Rightarrow> bool" where
  "has_node w nm = (nm \<in> set (map node_name (nodes w)))"

definition add_node :: "node \<Rightarrow> workflow \<Rightarrow> workflow" where
  "add_node n w = (if has_node w (node_name n) then w else w\<lparr>nodes := nodes w @ [n]\<rparr>)"

definition connect1 :: "node \<times> node \<times> (source \<times> string) list \<Rightarrow> workflow \<Rightarrow> workflow" where
  "connect1 c w = (case c of (src, dst, ports) \<Rightarrow>
     (let w' = add_node dst (add_node src w)
      in w'\<lparr>edges := edges w' @
           map (\<lambda>(s, d). (node_name src, s, node_name dst, d)) ports\<rparr>))"

definition connect :: "(node \<times> node \<times> (source \<times> string) list) list \<Rightarrow> workflow \<Rightarrow> workflow" where
  "connect cs w = fold connect1 cs w"

definition set_input :: "string \<Rightarrow> string \<Rightarrow> pyval \<Rightarrow> workflow \<Rightarrow> workflow" where
  "set_input nm field v w =
     w\<lparr>nodes := map (\<lambda>n. if node_name n = nm
                             then n\<lparr>inputs := AList.update field v (inputs n)\<rparr> else n)
                     (nodes w)\<rparr>"

definition get_node :: "workflow \<Rightarrow> string \<Rightarrow> node option" where
  "get_node w nm = find (\<lambda>n. node_name n = nm) (nodes w)"

text \<open>
  A Python \<^verbatim>\<open>dict\<close> is an association list. \<^verbatim>\<open>d.pop(k)\<close> returns the value
  and removes the key from the caller's dictionary, so the model returns the dictionary
  that remains; a missing key raises KeyError, as \<^verbatim>\<open>d[k]\<close> does.
\<close>

type_synonym dict = "(string \<times> pyval) list"

definition dict_pop :: "dict \<Rightarrow> string \<Rightarrow> error + pyval \<times> dict" where
  "dict_pop d k =
     (case map_of d k of
        None \<Rightarrow> Inl (KeyError k)
      | Some v \<Rightarrow> Inr (v, filter (\<lambda>kv. fst kv \<noteq> k) d))"

definition dict_getitem :: "dict \<Rightarrow> string \<Rightarrow> error + pyval" where
  "dict_getitem d k = (case map_of d k of None \<Rightarrow> Inl (KeyError k) | Some v \<Rightarrow> Inr v)"

text \<open>
  The keyword arguments of \<^verbatim>\<open>init_anat_preproc_wf\<close>. \<open>spaces\<close> stands for the list
  that \<^verbatim>\<open>spaces.get_spaces(nonstandard=False, dim=(3,))\<close> returns. The environment
  holds what the builder reads from outside: the image loader, numpy's reduction of a
  slice, the repository's
  \<^verbatim>\<open>fix_multi_source_name\<close> (in \<^verbatim>\<open>..utils\<close>, not among the sources) and the
  tool versions.
\<close>

record reference =
  space :: string
  fullname :: string

record args =
  bids_root :: string
  hires :: bool
  longitudinal :: bool
  t2w :: "string list"
  omp_nthreads :: int
  output_dir :: string
  skull_strip_mode :: string
  skull_strip_template :: reference
  spaces :: "string list"
  debug :: bool
  existing_derivatives :: "dict option"
  freesurfer :: bool
  name :: string
  skull_strip_fixed_seed :: bool

record env =
  nb_load :: loader
  np_sum :: reduction
  fix_multi_source_name :: "pyval \<Rightarrow> string \<Rightarrow> pyval"
  ants_version :: "string option"
  fsl_version :: "string option"

text \<open>
  What a call leaves behind: the exception raised or the value returned (the workflow,
  or \<^verbatim>\<open>None\<close> when the body runs off its end), the local workflow object at that
  moment, the caller's \<^verbatim>\<open>existing_derivatives\<close> after the call, and the argument of
  each call of \<^verbatim>\<open>_is_skull_stripped\<close>.
\<close>

record result =
  outcome :: "error + workflow option"
  graph :: workflow
  derivatives :: "dict option"
  probe_calls :: "string list list"



section \<open>The builder \<^verbatim>\<open>init_anat_preproc_wf\<close>\<close>

text \<open>
  The body of the builder, in the order of the source: the interface nodes and the
  reporting sub-workflow are created and connected first (lines 173-193); with
  \<^verbatim>\<open>existing_derivatives\<close> the builder binds the cached values and returns (lines
  195-232); otherwise it probes the images in mode \<^verbatim>\<open>auto\<close>, refuses images that
  are already skull-stripped (lines 273-291) and assembles the compute graph (lines
  294-409). The log message of the reuse path is not modelled.
\<close>

definition or_unknown :: "string option \<Rightarrow> string" where
  "or_unknown v = (case v of None \<Rightarrow> ''(version unknown)''
                   | Some s \<Rightarrow> if s = [] then ''(version unknown)'' else s)"

definition inputnode_fields :: "string list" where
  "inputnode_fields = [''t2w'', ''roi'', ''flair'', ''subjects_dir'', ''subject_id'']"

definition outputnode_fields :: "string list" where
  "outputnode_fields =
     [''t2w_preproc'', ''t2w_mask'', ''t2w_dseg'', ''t2w_tpms'',
      ''std_preproc'', ''std_mask'', ''std_dseg'', ''std_tpms'',
      ''anat2std_xfm'', ''std2anat_xfm'', ''template'']"

definition inputnode :: node where
  "inputnode = Node (IdentityInterface inputnode_fields) ''inputnode'' []"

definition outputnode :: node where
  "outputnode = Node (IdentityInterface outputnode_fields) ''outputnode'' []"

definition init_anat_reports_wf :: "bool \<Rightarrow> string \<Rightarrow> node" where
  "init_anat_reports_wf fs out_dir =
     Node (SubWorkflow ''init_anat_reports_wf''
             [(''freesurfer'', PBool fs), (''output_dir'', PStr out_dir)])
          ''anat_reports_wf'' []"

definition init_anat_template_wf :: "bool \<Rightarrow> int \<Rightarrow> nat \<Rightarrow> node" where
  "init_anat_template_wf long nthreads num_t1w =
     Node (SubWorkflow ''init_anat_template_wf''
             [(''longitudinal'', PBool long), (''omp_nthreads'', PInt nthreads),
              (''num_t1w'', PInt (int num_t1w))])
          ''anat_template_wf'' []"

definition init_rodent_brain_extraction_wf :: "string \<Rightarrow> int \<Rightarrow> node" where
  "init_rodent_brain_extraction_wf in_template nthreads =
     Node (SubWorkflow ''init_rodent_brain_extraction_wf''
             [(''in_template'', PStr in_template), (''omp_nthreads'', PInt nthreads)])
          ''brain_extraction_wf'' []"

definition init_anat_norm_wf :: "bool \<Rightarrow> int \<Rightarrow> string list \<Rightarrow> node" where
  "init_anat_norm_wf dbg nthreads templates =
     Node (SubWorkflow ''init_anat_norm_wf''
             [(''debug'', PBool dbg), (''omp_nthreads'', PInt nthreads),
              (''templates'', PList (map PStr templates))])
          ''anat_norm_wf'' []"

definition init_anat_derivatives_wf :: "string \<Rightarrow> bool \<Rightarrow> nat \<Rightarrow> string \<Rightarrow> node" where
  "init_anat_derivatives_wf broot fs num_t1w out_dir =
     Node (SubWorkflow ''init_anat_derivatives_wf''
             [(''bids_root'', PStr broot), (''freesurfer'', PBool fs),
              (''num_t1w'', PInt (int num_t1w)), (''output_dir'', PStr out_dir)])
          ''anat_derivatives_wf'' []"

definition same :: "string \<Rightarrow> source \<times> string" where
  "same f = (Out f, f)"

definition reports_connections :: "node \<Rightarrow> (node \<times> node \<times> (source \<times> string) list) list" where
  "reports_connections anat_reports_wf =
     [(outputnode, anat_reports_wf,
        [(Out ''t2w_preproc'', ''inputnode.t1w_preproc''),
         (Out ''t2w_mask'', ''inputnode.t1w_mask''),
         (Out ''t2w_dseg'', ''inputnode.t1w_dseg'')])]"

definition reuse_connections ::
  "node \<Rightarrow> node \<Rightarrow> node \<Rightarrow> (node \<times> node \<times> (source \<times> string) list) list" where
  "reuse_connections anat_reports_wf templatesource stdselect =
     [(inputnode, outputnode, [same ''subjects_dir'', same ''subject_id'']),
      (inputnode, anat_reports_wf,
        [(Out ''subjects_dir'', ''inputnode.subjects_dir''),
         (Out ''subject_id'', ''inputnode.subject_id'')]),
      (templatesource, stdselect, [(Out ''template'', ''key'')]),
      (outputnode, stdselect, [same ''std_preproc'', same ''std_mask'']),
      (stdselect, anat_reports_wf,
        [(Out ''key'', ''inputnode.template''),
         (Out ''std_preproc'', ''inputnode.std_t1w''),
         (Out ''std_mask'', ''inputnode.std_mask'')])]"

text \<open>
  \<^verbatim>\<open>
  templates = existing_derivatives.pop('template')
  templatesource = pe.Node(niu.IdentityInterface(fields=['template']), name='templatesource')
  templatesource.iterables = [('template', templates)]
  outputnode.inputs.template = templates
  for field, value in existing_derivatives.items():
      setattr(outputnode.inputs, field, value)
  anat_reports_wf.inputs.inputnode.source_file = fix_multi_source_name(
      [existing_derivatives['t2w_preproc']], modality='T2w')
  stdselect = pe.Node(KeySelect(fields=['std_preproc', 'std_mask'], keys=templates),
                      name='stdselect', run_without_submitting=True)
  workflow.connect([...])
  return workflow
  \<close>
\<close>

definition reuse_derivatives :: "env \<Rightarrow> node \<Rightarrow> workflow \<Rightarrow> dict \<Rightarrow> result" where
  "reuse_derivatives e anat_reports_wf w0 d =
     (let w1 = w0\<lparr>wf_desc := Some ReusedText\<rparr>
      in case dict_pop d ''template'' of
           Inl err \<Rightarrow>
             \<lparr>outcome = Inl err, graph = w1, derivatives = Some d, probe_calls = []\<rparr>
         | Inr (templates, d') \<Rightarrow>
             (let templatesource =
                    (Node (IdentityInterface [''template'']) ''templatesource'' [])
                      \<lparr>iterables := [(''template'', templates)]\<rparr>;
                  w2 = set_input ''outputnode'' ''template'' templates w1;
                  w3 = fold (\<lambda>(field, val). set_input ''outputnode'' field val) d' w2
              in case dict_getitem d' ''t2w_preproc'' of
                   Inl err \<Rightarrow>
                     \<lparr>outcome = Inl err, graph = w3, derivatives = Some d',
                      probe_calls = []\<rparr>
                 | Inr preproc \<Rightarrow>
                     (let w4 = set_input ''anat_reports_wf'' ''inputnode.source_file''
                                 (fix_multi_source_name e (PList [preproc]) ''T2w'') w3;
                          stdselect =
                            Node (KeySelect [''std_preproc'', ''std_mask''] templates)
                              ''stdselect'' [(''run_without_submitting'', PBool True)];
                          w5 = connect
                                 (reuse_connections anat_reports_wf templatesource stdselect) w4
                      in \<lparr>outcome = Inr (Some w5), graph = w5, derivatives = Some d',
                          probe_calls = []\<rparr>)))"

text \<open>
  \<^verbatim>\<open>
  if skull_strip_mode == 'auto':
      ...
      skull_strip_mode = _is_skull_stripped(t2w)
  if skull_strip_mode in (True, 'skip'):
      raise NotImplementedError("Cannot run on already skull-stripped images.")
  \<close>
  The local variable holds the string argument or, after the probe, a boolean.
\<close>

datatype mode_value = ModeStr string | ModeBool bool

fun mode_in_true_skip :: "mode_value \<Rightarrow> bool" where
  "mode_in_true_skip (ModeBool b) = b"
| "mode_in_true_skip (ModeStr s) = (s = ''skip'')"

definition main_connections ::
  "node \<Rightarrow> node \<Rightarrow> node \<Rightarrow> node \<Rightarrow> node
     \<Rightarrow> (node \<times> node \<times> (source \<times> string) list) list" where
  "main_connections anat_template_wf anat_validate brain_extraction_wf buffernode anat_norm_wf =
     [(inputnode, anat_template_wf, [(Out ''t2w'', ''inputnode.t1w'')]),
      (anat_template_wf, anat_validate, [(Out ''outputnode.t1w_ref'', ''in_file'')]),
      (anat_validate, brain_extraction_wf, [(Out ''out_file'', ''inputnode.in_files'')]),
      (brain_extraction_wf, outputnode,
        [(OutVia ''outputnode.out_corrected'' ''_pop'', ''t2w_preproc'')]),
      (anat_template_wf, outputnode,
        [(Out ''outputnode.t1w_realign_xfm'', ''t2w_ref_xfms'')]),
      (buffernode, outputnode, [same ''t2w_brain'', same ''t2w_mask'']),
      (inputnode, anat_norm_wf,
        [(OutVia ''t2w'' ''fix_multi_source_name'', ''inputnode.orig_t1w''),
         (Out ''roi'', ''inputnode.lesion_mask'')]),
      (brain_extraction_wf, anat_norm_wf,
        [(OutVia ''outputnode.out_corrected'' ''_pop'', ''inputnode.moving_image'')]),
      (buffernode, anat_norm_wf, [(Out ''t2w_mask'', ''inputnode.moving_mask'')]),
      (anat_norm_wf, outputnode,
        [(Out ''poutputnode.standardized'', ''std_preproc''),
         (Out ''poutputnode.std_mask'', ''std_mask''),
         (Out ''poutputnode.std_dseg'', ''std_dseg''),
         (Out ''poutputnode.std_tpms'', ''std_tpms''),
         (Out ''outputnode.template'', ''template''),
         (Out ''outputnode.anat2std_xfm'', ''anat2std_xfm''),
         (Out ''outputnode.std2anat_xfm'', ''std2anat_xfm'')])]"

definition lut_connections ::
  "node \<Rightarrow> node \<Rightarrow> (node \<times> node \<times> (source \<times> string) list) list" where
  "lut_connections lut_t1w_dseg anat_norm_wf =
     [(lut_t1w_dseg, anat_norm_wf, [(Out ''out'', ''inputnode.moving_segmentation'')]),
      (lut_t1w_dseg, outputnode, [(Out ''out'', ''t1w_dseg'')])]"

definition reportlet_connections ::
  "node \<Rightarrow> node \<Rightarrow> node \<Rightarrow> (node \<times> node \<times> (source \<times> string) list) list" where
  "reportlet_connections anat_reports_wf anat_template_wf anat_norm_wf =
     [(inputnode, anat_reports_wf,
        [(OutVia ''t2w'' ''fix_multi_source_name'', ''inputnode.source_file'')]),
      (outputnode, anat_reports_wf,
        [(Out ''std_preproc'', ''inputnode.std_t1w''),
         (Out ''std_mask'', ''inputnode.std_mask'')]),
      (anat_template_wf, anat_reports_wf,
        [(Out ''outputnode.out_report'', ''inputnode.t1w_conform_report'')]),
      (anat_norm_wf, anat_reports_wf,
        [(Out ''poutputnode.template'', ''inputnode.template'')])]"

definition derivatives_connections ::
  "node \<Rightarrow> node \<Rightarrow> node \<Rightarrow> (node \<times> node \<times> (source \<times> string) list) list" where
  "derivatives_connections anat_template_wf anat_norm_wf anat_derivatives_wf =
     [(anat_template_wf, anat_derivatives_wf,
        [(Out ''outputnode.t1w_valid_list'', ''inputnode.source_files'')]),
      (anat_norm_wf, anat_derivatives_wf,
        [(Out ''poutputnode.template'', ''inputnode.template''),
         (Out ''poutputnode.anat2std_xfm'', ''inputnode.anat2std_xfm''),
         (Out ''poutputnode.std2anat_xfm'', ''inputnode.std2anat_xfm'')]),
      (outputnode, anat_derivatives_wf,
        [(Out ''std_preproc'', ''inputnode.std_t1w''),
         (Out ''t2w_ref_xfms'', ''inputnode.t1w_ref_xfms''),
         (Out ''t2w_preproc'', ''inputnode.t1w_preproc''),
         (Out ''t2w_mask'', ''inputnode.t1w_mask''),
         (Out ''t2w_dseg'', ''inputnode.t1w_dseg''),
         (Out ''t2w_tpms'', ''inputnode.t1w_tpms''),
         (Out ''std_mask'', ''inputnode.std_mask''),
         (Out ''std_dseg'', ''inputnode.std_dseg''),
         (Out ''std_tpms'', ''inputnode.std_tpms'')])]"

definition segmentation_connections ::
  "node \<Rightarrow> node \<Rightarrow> node \<Rightarrow> node \<Rightarrow> node \<Rightarrow> node
     \<Rightarrow> (node \<times> node \<times> (source \<times> string) list) list" where
  "segmentation_connections brain_extraction_wf buffernode t1w_dseg lut_t1w_dseg fast2bids
       anat_norm_wf =
     [(brain_extraction_wf, buffernode,
        [(OutVia ''outputnode.out_brain'' ''_pop'', ''t2w_brain''),
         (Out ''outputnode.out_mask'', ''t2w_mask'')]),
      (buffernode, t1w_dseg, [(Out ''t2w_brain'', ''in_files'')]),
      (t1w_dseg, lut_t1w_dseg, [(Out ''partial_volume_map'', ''in_dseg'')]),
      (t1w_dseg, fast2bids, [(Out ''partial_volume_files'', ''inlist'')]),
      (fast2bids, anat_norm_wf, [(Out ''out'', ''inputnode.moving_tpms'')]),
      (fast2bids, outputnode, [(Out ''out'', ''t2w_tpms'')])]"

text \<open>
  The compute graph (lines 294-409). The parameter \<open>fs\<close> is the local variable
  \<^verbatim>\<open>freesurfer\<close>; when it is false the segmentation nodes are added and the workflow
  is returned, otherwise the body ends without a \<^verbatim>\<open>return\<close>.
\<close>

definition assemble :: "args \<Rightarrow> bool \<Rightarrow> node \<Rightarrow> node \<Rightarrow> node \<Rightarrow> node
    \<Rightarrow> workflow \<Rightarrow> string list list \<Rightarrow> result" where
  "assemble a fs anat_reports_wf buffernode anat_template_wf anat_validate w1 calls =
     (let num_t2w = length (t2w a);
          brain_extraction_wf =
            init_rodent_brain_extraction_wf (space (skull_strip_template a)) (omp_nthreads a);
          anat_norm_wf = init_anat_norm_wf (debug a) (omp_nthreads a) (spaces a);
          w2 = connect (main_connections anat_template_wf anat_validate brain_extraction_wf
                          buffernode anat_norm_wf) w1;
          lut_t1w_dseg = Node (Function ''_apply_bids_lut'') ''lut_t1w_dseg'' [];
          w3 = connect (lut_connections lut_t1w_dseg anat_norm_wf) w2;
          w4 = connect (reportlet_connections anat_reports_wf anat_template_wf anat_norm_wf) w3;
          anat_derivatives_wf =
            init_anat_derivatives_wf (bids_root a) fs num_t2w (output_dir a);
          w5 = connect (derivatives_connections anat_template_wf anat_norm_wf
                          anat_derivatives_wf) w4
      in if \<not> fs then
           (let t1w_dseg = Node (FAST [(''segments'', PBool True), (''no_bias'', PBool True),
                                        (''probability_maps'', PBool True)])
                             ''t1w_dseg'' [(''mem_gb'', PInt 3)];
                w6 = set_input ''lut_t1w_dseg'' ''lut''
                       (PTuple [PInt 0, PInt 3, PInt 1, PInt 2]) w5;
                fast2bids = Node (Function ''_probseg_fast2bids'') ''fast2bids''
                              [(''run_without_submitting'', PBool True)];
                w7 = connect (segmentation_connections brain_extraction_wf buffernode t1w_dseg
                                lut_t1w_dseg fast2bids anat_norm_wf) w6
            in \<lparr>outcome = Inr (Some w7), graph = w7,
                derivatives = existing_derivatives a, probe_calls = calls\<rparr>)
         else \<lparr>outcome = Inr None, graph = w5,
               derivatives = existing_derivatives a, probe_calls = calls\<rparr>)"

definition compute :: "env \<Rightarrow> args \<Rightarrow> bool \<Rightarrow> node \<Rightarrow> workflow \<Rightarrow> result" where
  "compute e a fs anat_reports_wf w0 =
     (let num_t2w = length (t2w a);
          w1 = w0\<lparr>wf_desc := Some (ComputedText num_t2w (or_unknown (ants_version e))
                     (or_unknown (fsl_version e)) (fullname (skull_strip_template a)))\<rparr>;
          buffernode = Node (IdentityInterface [''t2w_brain'', ''t2w_mask'']) ''buffernode'' [];
          anat_template_wf =
            init_anat_template_wf (longitudinal a) (omp_nthreads a) num_t2w;
          anat_validate = Node ValidateImage ''anat_validate''
                            [(''run_without_submitting'', PBool True)]
      in if skull_strip_mode a = ''auto'' then
           (case is_skull_stripped (np_sum e) (nb_load e) (t2w a) of
              Inl err \<Rightarrow>
                \<lparr>outcome = Inl err, graph = w1, derivatives = existing_derivatives a,
                 probe_calls = [t2w a]\<rparr>
            | Inr stripped \<Rightarrow>
                if mode_in_true_skip (ModeBool stripped) then
                  \<lparr>outcome = Inl (NotImplementedError
                                    ''Cannot run on already skull-stripped images.''),
                   graph = w1, derivatives = existing_derivatives a,
                   probe_calls = [t2w a]\<rparr>
                else assemble a fs anat_reports_wf buffernode anat_template_wf anat_validate w1
                       [t2w a])
         else if mode_in_true_skip (ModeStr (skull_strip_mode a)) then
           \<lparr>outcome = Inl (NotImplementedError
                             ''Cannot run on already skull-stripped images.''),
            graph = w1, derivatives = existing_derivatives a, probe_calls = []\<rparr>
         else assemble a fs anat_reports_wf buffernode anat_template_wf anat_validate w1 [])"

text \<open>
  The first statement of the body is \<^verbatim>\<open>freesurfer = False\<close>: the argument is never
  read.
\<close>

definition init_anat_preproc_wf :: "env \<Rightarrow> args \<Rightarrow> result" where
  "init_anat_preproc_wf e a =
     (let fs = False;
          workflow = Workflow (name a);
          anat_reports_wf = init_anat_reports_wf fs (output_dir a);
          w0 = connect (reports_connections anat_reports_wf) workflow
      in case existing_derivatives a of
           Some d \<Rightarrow> reuse_derivatives e anat_reports_wf w0 d
         | None \<Rightarrow> compute e a fs anat_reports_wf w0)"


section \<open>Notions of the specification\<close>

text \<open>
  Modelled from the spec: which nodes are Processing Units. The specification calls a
  Processing Unit an opaque external computation wrapped by a node (image correction,
  brain extraction, segmentation, registration). Identity interfaces and the key
  selector only pass values on; the reports and derivatives sub-workflows are the
  collaborators the graph produces to.
\<close>

fun processing_unit :: "interface \<Rightarrow> bool" where
  "processing_unit (IdentityInterface flds) = False"
| "processing_unit (KeySelect flds ks) = False"
| "processing_unit ValidateImage = True"
| "processing_unit (Function f) = True"
| "processing_unit (FAST kw) = True"
| "processing_unit (SubWorkflow builder kw) =
     (builder \<noteq> ''init_anat_reports_wf'' \<and> builder \<noteq> ''init_anat_derivatives_wf'')"

text \<open>
  A derivative set is complete when it has an entry for every field of the output
  interface. \<open>node_inputs\<close> reads the inputs bound on a node of a graph.
\<close>

definition complete :: "dict \<Rightarrow> bool" where
  "complete d = list_all (\<lambda>f. f \<in> fst ` set d) outputnode_fields"

definition node_inputs :: "workflow \<Rightarrow> string \<Rightarrow> string \<Rightarrow> pyval option" where
  "node_inputs g nm = (case get_node g nm of None \<Rightarrow> Map.empty | Some n \<Rightarrow> map_of (inputs n))"

definition no_processing_unit :: "workflow \<Rightarrow> bool" where
  "no_processing_unit g = list_all (\<lambda>n. \<not> processing_unit (interface n)) (nodes g)"

text \<open>The edges that the builder adds first, and those of the reuse path, written out.\<close>

definition reports_edges :: "edge list" where
  "reports_edges =
     [(''outputnode'', Out ''t2w_preproc'', ''anat_reports_wf'', ''inputnode.t1w_preproc''),
      (''outputnode'', Out ''t2w_mask'', ''anat_reports_wf'', ''inputnode.t1w_mask''),
      (''outputnode'', Out ''t2w_dseg'', ''anat_reports_wf'', ''inputnode.t1w_dseg'')]"

definition reuse_edges :: "edge list" where
  "reuse_edges =
     [(''inputnode'', Out ''subjects_dir'', ''outputnode'', ''subjects_dir''),
      (''inputnode'', Out ''subject_id'', ''outputnode'', ''subject_id''),
      (''inputnode'', Out ''subjects_dir'', ''anat_reports_wf'', ''inputnode.subjects_dir''),
      (''inputnode'', Out ''subject_id'', ''anat_reports_wf'', ''inputnode.subject_id''),
      (''templatesource'', Out ''template'', ''stdselect'', ''key''),
      (''outputnode'', Out ''std_preproc'', ''stdselect'', ''std_preproc''),
      (''outputnode'', Out ''std_mask'', ''stdselect'', ''std_mask''),
      (''stdselect'', Out ''key'', ''anat_reports_wf'', ''inputnode.template''),
      (''stdselect'', Out ''std_preproc'', ''anat_reports_wf'', ''inputnode.std_t1w''),
      (''stdselect'', Out ''std_mask'', ''anat_reports_wf'', ''inputnode.std_mask'')]"

definition reused_graph :: "env \<Rightarrow> args \<Rightarrow> dict \<Rightarrow> pyval \<Rightarrow> pyval \<Rightarrow> workflow" where
  "reused_graph e a d' templates preproc =
     \<lparr>wf_name = name a, wf_desc = Some ReusedText,
      nodes =
        [outputnode\<lparr>inputs := fold (\<lambda>(f, v). AList.update f v) d'
                                  [(''template'', templates)]\<rparr>,
         (init_anat_reports_wf False (output_dir a))
           \<lparr>inputs := [(''inputnode.source_file'',
                         fix_multi_source_name e (PList [preproc]) ''T2w'')]\<rparr>,
         inputnode,
         (Node (IdentityInterface [''template'']) ''templatesource'' [])
           \<lparr>iterables := [(''template'', templates)]\<rparr>,
         Node (KeySelect [''std_preproc'', ''std_mask''] templates) ''stdselect''
           [(''run_without_submitting'', PBool True)]],
      edges = reports_edges @ reuse_edges\<rparr>"

section \<open>Example inputs\<close>

definition example_env :: env where
  "example_env =
     \<lparr>nb_load = (\<lambda>p. Inr zero_bordered),
      np_sum = sequential_sum,
      fix_multi_source_name = (\<lambda>files modality. PStr ''sub-01_T2w.nii.gz''),
      ants_version = Some ''2.3.4'',
      fsl_version = None\<rparr>"

definition example_args :: args where
  "example_args =
     \<lparr>bids_root = ''/data'', hires = True, longitudinal = False,
      t2w = [''sub-01_T2w.nii.gz''], omp_nthreads = 1, output_dir = ''/out'',
      skull_strip_mode = ''force'',
      skull_strip_template = \<lparr>space = ''Fischer344'', fullname = ''Fischer344''\<rparr>,
      spaces = [''Fischer344''], debug = False, existing_derivatives = None,
      freesurfer = True, name = ''anat_preproc_wf'', skull_strip_fixed_seed = False\<rparr>"

definition partial_derivatives :: dict where
  "partial_derivatives =
     [(''template'', PList [PStr ''Fischer344'']),
      (''t2w_preproc'', PStr ''/out/sub-01_desc-preproc_T2w.nii.gz'')]"

definition empty_template_derivatives :: dict where
  "empty_template_derivatives =
     [(''template'', PList []),
      (''t2w_preproc'', PStr ''/out/sub-01_desc-preproc_T2w.nii.gz'')]"

definition complete_derivatives :: dict where
  "complete_derivatives =
     [(''t2w_preproc'', PStr ''/out/sub-01_desc-preproc_T2w.nii.gz''),
      (''t2w_mask'', PStr ''/out/sub-01_desc-brain_mask.nii.gz''),
      (''t2w_dseg'', PStr ''/out/sub-01_dseg.nii.gz''),
      (''t2w_tpms'', PList [PStr ''/out/sub-01_label-GM_probseg.nii.gz'']),
      (''std_preproc'', PList [PStr ''/out/sub-01_space-Fischer344_T2w.nii.gz'']),
      (''std_mask'', PList [PStr ''/out/sub-01_space-Fischer344_mask.nii.gz'']),
      (''std_dseg'', PList [PStr ''/out/sub-01_space-Fischer344_dseg.nii.gz'']),
      (''std_tpms'', PList [PList [PStr ''/out/sub-01_space-Fischer344_probseg.nii.gz'']]),
      (''anat2std_xfm'', PList [PStr ''/out/sub-01_from-T2w_to-Fischer344_xfm.h5'']),
      (''std2anat_xfm'', PList [PStr ''/out/sub-01_from-Fischer344_to-T2w_xfm.h5'']),
      (''template'', PList [PStr ''Fischer344''])]"

section \<open>Properties of \<^verbatim>\<open>_pop\<close>\<close>

text \<open>
  Claim C10. An input that is neither a list nor a tuple is returned unchanged; a
  non-empty list or tuple yields its first element; an empty list or tuple makes
  \<^verbatim>\<open>_pop\<close> fail with IndexError.
\<close>

theorem pop_cases:
  "(\<not> isinstance_list_tuple v \<longrightarrow> pop v = Inr v) \<and>
   pop (PList (x # xs)) = Inr x \<and>
   pop (PTuple (x # xs)) = Inr x \<and>
   pop (PList []) = Inl IndexError \<and>
   pop (PTuple []) = Inl IndexError"
  by (cases v) simp_all

theorem pop_cases_witness:
  "\<not> isinstance_list_tuple (PPath ''tpl-MouseIn_res-1_desc-GM_probseg.nii.gz'') \<and>
   pop (PPath ''tpl-MouseIn_res-1_desc-GM_probseg.nii.gz'') =
     Inr (PPath ''tpl-MouseIn_res-1_desc-GM_probseg.nii.gz'') \<and>
   pop (PList [PStr ''a'', PStr ''b'']) = Inr (PStr ''a'') \<and>
   pop (PTuple [PInt 1]) = Inr (PInt 1) \<and>
   pop (PList []) = Inl IndexError \<and>
   pop (PTuple []) = Inl IndexError"
  using pop_cases [of "PPath ''tpl-MouseIn_res-1_desc-GM_probseg.nii.gz''" "PStr ''a''" "[PStr ''b'']"]
    pop_cases [of PNone "PInt 1" "[]"]
  by simp

section \<open>Properties of the probe classifier\<close>

lemma axis_index_first: "0 < n \<Longrightarrow> axis_index n 0 = Inr 0"
  by (simp add: axis_index_def)

lemma axis_index_last: "0 < n \<Longrightarrow> axis_index n (- 1) = Inr (n - 1)"
  by (auto simp add: axis_index_def Let_def)

lemma axis_index_empty: "axis_index 0 i = Inl IndexError"
  by (simp add: axis_index_def Let_def)

lemma sidevals_nonempty:
  assumes "nonempty_axes a"
  shows "sidevals red (np_abs a) = Inr (float32_faces_sum red a)"
proof -
  obtain nx ny nz where s: "shape a = (nx, ny, nz)" by (cases "shape a") auto
  with assms have pos: "0 < nx" "0 < ny" "0 < nz" by (simp_all add: nonempty_axes_def)
  show ?thesis
    using pos
    by (simp add: sidevals_def plane0_def plane1_def plane2_def np_abs_def s
        axis_index_first axis_index_last float32_faces_sum_def end_slices_def grid_def)
qed

lemma sidevals_empty_axis:
  assumes "\<not> nonempty_axes a"
  shows "sidevals red (np_abs a) = Inl IndexError"
proof -
  obtain nx ny nz where s: "shape a = (nx, ny, nz)" by (cases "shape a") auto
  with assms have "nx = 0 \<or> ny = 0 \<or> nz = 0" by (simp add: nonempty_axes_def)
  then show ?thesis
    by (cases "nx = 0"; cases "ny = 0")
      (auto simp add: sidevals_def plane0_def plane1_def plane2_def np_abs_def s
        axis_index_first axis_index_last axis_index_empty)
qed

lemma check_img_nonempty:
  "load img = Inr v \<Longrightarrow> nonempty_axes v \<Longrightarrow>
     check_img red load img = Inr (less_int (float32_faces_sum red v) 10)"
  by (simp add: check_img_def sidevals_nonempty)

lemma is_skull_stripped_iff_all:
  "is_skull_stripped red load imgs = Inr True \<longleftrightarrow>
     (\<forall>img \<in> set imgs. check_img red load img = Inr True)"
  by (induction imgs) (auto split: sum.splits)

lemma is_skull_stripped_loaded:
  "map load imgs = map Inr vs \<Longrightarrow> list_all nonempty_axes vs \<Longrightarrow>
     is_skull_stripped red load imgs =
       Inr (\<forall>v \<in> set vs. less_int (float32_faces_sum red v) 10)"
proof (induction imgs arbitrary: vs)
  case Nil
  then show ?case by simp
next
  case (Cons img imgs)
  then obtain v vs' where vs: "vs = v # vs'" by (cases vs) auto
  with Cons.prems have "load img = Inr v" "nonempty_axes v"
    "map load imgs = map Inr vs'" "list_all nonempty_axes vs'"
    by simp_all
  then show ?case
    using Cons.IH [of vs'] by (simp add: vs check_img_nonempty)
qed

lemma round32_zero: "round32 0 = Finite 0"
  by (simp add: round32_def round_half_even_def)

lemma grid_zero:
  assumes "\<And>i j. i < n \<Longrightarrow> j < m \<Longrightarrow> f i j = Finite 0"
  shows "\<forall>row \<in> set (grid n m f). \<forall>x \<in> set row. x = Finite 0"
  using assms by (auto simp add: grid_def)

lemma faces_zero_sum:
  assumes "nonempty_axes a" "faces_zero a" "sums_zeros red"
  shows "float32_faces_sum red a = Finite 0"
proof -
  obtain nx ny nz where s: "shape a = (nx, ny, nz)" by (cases "shape a") auto
  from assms(2) have z: "\<And>i j k. i < nx \<Longrightarrow> j < ny \<Longrightarrow> k < nz \<Longrightarrow>
      i = 0 \<or> i = nx - 1 \<or> j = 0 \<or> j = ny - 1 \<or> k = 0 \<or> k = nz - 1 \<Longrightarrow>
      item a i j k = Finite 0"
    using s by (auto simp add: faces_zero_def)
  from assms(1) have pos: "0 < nx" "0 < ny" "0 < nz" by (simp_all add: nonempty_axes_def s)
  have red: "red axis (grid n m f) = Finite 0"
    if "\<And>i j. i < n \<Longrightarrow> j < m \<Longrightarrow> f i j = Finite 0" for axis n m f
    using assms(3) grid_zero [OF that] by (simp add: sums_zeros_def)
  show ?thesis
    using pos by (simp add: float32_faces_sum_def end_slices_def s red z round32_zero)
qed


lemma sequential_sum_zeros: "sums_zeros sequential_sum"
proof -
  have "foldl add32 (Finite 0) xs = Finite 0" if "\<forall>x \<in> set xs. x = Finite 0" for xs
    using that by (induction xs) (simp_all add: round32_zero)
  then show ?thesis
    by (auto simp add: sums_zeros_def sequential_sum_def)
qed

lemma bitlen_le:
  assumes "0 < k" "k < 2 ^ n"
  shows "bitlen k \<le> int n"
proof (rule ccontr)
  assume "\<not> bitlen k \<le> int n"
  then have "n \<le> nat (bitlen k - 1)" by simp
  then have "(2::int) ^ n \<le> 2 ^ nat (bitlen k - 1)"
    by (rule power_increasing) simp
  also have "\<dots> \<le> k" using bitlen_bounds [OF assms(1)] by simp
  finally show False using assms(2) by simp
qed

lemma round32_small:
  assumes "0 \<le> k" "k < 2 ^ 24" "24 + e \<le> 277"
  shows "round32 (k * 2 ^ e) = Finite (k * 2 ^ e)"
proof (cases "k = 0")
  case True
  then show ?thesis by (simp add: round32_zero)
next
  case False
  with assms have pos: "0 < k" by simp
  define s where "s = nat (bitlen (k * 2 ^ e) - 24)"
  have bl: "bitlen (k * 2 ^ e) = bitlen k + int e"
    using pos by (rule bitlen_pow2)
  have "bitlen k \<le> 24" using bitlen_le [OF pos assms(2)] by simp
  then have se: "s \<le> e" by (simp add: s_def bl)
  then have split: "(2::int) ^ e = 2 ^ (e - s) * 2 ^ s"
    by (simp add: power_add [symmetric])
  have m: "k * 2 ^ e = (k * 2 ^ (e - s)) * 2 ^ s"
    by (simp add: split)
  have md: "(k * 2 ^ e) mod 2 ^ s = 0" "(k * 2 ^ e) div 2 ^ s = k * 2 ^ (e - s)"
    unfolding m by simp_all
  have rhe: "round_half_even (k * 2 ^ e) s * 2 ^ s = k * 2 ^ e"
    unfolding round_half_even_def Let_def md by (simp add: m [symmetric])
  have "k * 2 ^ e < 2 ^ 24 * (2::int) ^ e"
    using assms(2) by simp
  also have "\<dots> = 2 ^ (24 + e)" by (simp add: power_add)
  also have "\<dots> \<le> 2 ^ 277" using assms(3) by (intro power_increasing) simp_all
  finally have small: "\<not> (2::int) ^ 277 \<le> k * 2 ^ e" by simp
  have ge: "0 \<le> k * 2 ^ e" using pos by (intro mult_nonneg_nonneg) simp_all
  then have abs: "\<bar>k * 2 ^ e\<bar> = k * 2 ^ e" by (rule abs_of_nonneg)
  from ge have nn: "\<not> k * 2 ^ e < 0" by (simp only: not_less)
  show ?thesis
    unfolding round32_def Let_def abs s_def [symmetric] rhe
    using small nn by (simp only: if_False)
qed

lemma add32_small:
  assumes "0 \<le> a" "0 \<le> b" "a + b < 2 ^ 24"
  shows "add32 (float32_of_int a) (float32_of_int b) = float32_of_int (a + b)"
proof -
  have "a * 2 ^ unit_exponent + b * 2 ^ unit_exponent = (a + b) * 2 ^ unit_exponent"
    by (simp add: algebra_simps)
  moreover have "24 + unit_exponent \<le> 277" by (simp add: unit_exponent_def)
  ultimately show ?thesis
    using round32_small [of "a + b" unit_exponent] assms
    by (simp add: float32_of_int_def)
qed

lemma foldl_add_ones:
  assumes "0 \<le> a" "a + int n < 2 ^ 24"
  shows "foldl add32 (float32_of_int a) (replicate n (float32_of_int 1)) =
           float32_of_int (a + int n)"
  using assms
proof (induction n arbitrary: a)
  case 0
  then show ?case by simp
next
  case (Suc n)
  have "add32 (float32_of_int a) (float32_of_int 1) = float32_of_int (a + 1)"
    using Suc.prems by (intro add32_small) simp_all
  then show ?case
    using Suc.IH [of "a + 1"] Suc.prems by (simp add: add.assoc)
qed

lemma concat_grid_const: "concat (grid n m (\<lambda>i j. c)) = replicate (n * m) c"
proof -
  have row: "map (\<lambda>j. c) [0..<m] = replicate m c"
    by (simp add: map_replicate_const)
  have "concat (replicate n (replicate m c)) = replicate (n * m) c" for n
    by (induction n) (simp_all add: replicate_add)
  then show ?thesis
    by (simp add: grid_def row map_replicate_const)
qed

lemma sequential_sum_ones:
  assumes "int (n * m) < 2 ^ 24"
  shows "sequential_sum axis (grid n m (\<lambda>i j. float32_of_int 1)) =
           float32_of_int (int (n * m))"
proof -
  have z: "Finite 0 = float32_of_int 0" by (simp add: float32_of_int_def)
  show ?thesis
    unfolding sequential_sum_def concat_grid_const z
    using foldl_add_ones [of 0 "n * m"] assms by simp
qed

lemma uniform_ones_faces:
  "nonempty_axes uniform_ones"
  "float32_faces_sum sequential_sum uniform_ones = float32_of_int 600"
proof -
  show "nonempty_axes uniform_ones"
    by (simp add: nonempty_axes_def uniform_ones_def)
  have one: "abs32 (float32_of_int 1) = float32_of_int 1"
    by (simp add: float32_of_int_def)
  have s: "sequential_sum axis (grid 10 10 (\<lambda>i j. float32_of_int 1)) = float32_of_int 100"
    for axis
    using sequential_sum_ones [of 10 10 axis] by simp
  have a: "add32 (float32_of_int 100) (float32_of_int 100) = float32_of_int 200"
    "add32 (float32_of_int 200) (float32_of_int 100) = float32_of_int 300"
    "add32 (float32_of_int 300) (float32_of_int 100) = float32_of_int 400"
    "add32 (float32_of_int 400) (float32_of_int 100) = float32_of_int 500"
    "add32 (float32_of_int 500) (float32_of_int 100) = float32_of_int 600"
    using add32_small [of 100 100] add32_small [of 200 100] add32_small [of 300 100]
      add32_small [of 400 100] add32_small [of 500 100]
    by simp_all
  show "float32_faces_sum sequential_sum uniform_ones = float32_of_int 600"
    by (simp add: float32_faces_sum_def end_slices_def uniform_ones_def one s a)
qed

lemma zero_bordered_faces: "nonempty_axes zero_bordered" "faces_zero zero_bordered"
  by (simp_all add: nonempty_axes_def faces_zero_def zero_bordered_def)

lemma near_ten_faces:
  "nonempty_axes near_ten"
  "float32_faces_sum sequential_sum near_ten = Finite ((10 * 2 ^ 20 - 1) * 2 ^ 129)"
  "exact_faces_units near_ten = 10 * 2 ^ 149 + 2 ^ 127"
  by code_simp+

text \<open>
  Claim C1 (amended). An image whose volume has no empty axis is classified
  skull-stripped exactly when the binary32 value obtained by adding, from left to right
  and with rounding, the sums of the absolute intensities over its six end-slices is
  strictly below 10; a batch is classified skull-stripped exactly when every image in it
  is; a volume whose six faces are all zero is classified skull-stripped when the
  reduction of a slice of zeros is zero; and a volume for which that binary32 value is
  not below 10 is not classified skull-stripped.
\<close>

theorem is_skull_stripped_rule:
  "(load img = Inr v \<and> nonempty_axes v \<longrightarrow>
      check_img red load img = Inr (less_int (float32_faces_sum red v) 10)) \<and>
   (is_skull_stripped red load imgs = Inr True \<longleftrightarrow>
      (\<forall>i \<in> set imgs. check_img red load i = Inr True)) \<and>
   (map load imgs = map Inr vs \<and> list_all nonempty_axes vs \<longrightarrow>
      is_skull_stripped red load imgs =
        Inr (\<forall>w \<in> set vs. less_int (float32_faces_sum red w) 10)) \<and>
   (load img = Inr v \<and> nonempty_axes v \<and> faces_zero v \<and> sums_zeros red \<longrightarrow>
      check_img red load img = Inr True) \<and>
   (load img = Inr v \<and> nonempty_axes v \<and> \<not> less_int (float32_faces_sum red v) 10 \<longrightarrow>
      check_img red load img = Inr False)"
proof (intro conjI impI)
  show "is_skull_stripped red load imgs = Inr True \<longleftrightarrow>
      (\<forall>i \<in> set imgs. check_img red load i = Inr True)"
    by (rule is_skull_stripped_iff_all)
qed (auto simp add: check_img_nonempty is_skull_stripped_loaded faces_zero_sum unit_exponent_def)

theorem is_skull_stripped_rule_witness:
  "nonempty_axes zero_bordered \<and> faces_zero zero_bordered \<and> sums_zeros sequential_sum \<and>
   nonempty_axes uniform_ones \<and>
   float32_faces_sum sequential_sum uniform_ones = float32_of_int 600 \<and>
   check_img sequential_sum (\<lambda>p. Inr zero_bordered) ''sub-01_T2w.nii.gz'' = Inr True \<and>
   check_img sequential_sum (\<lambda>p. Inr uniform_ones) ''sub-01_T2w.nii.gz'' = Inr False \<and>
   is_skull_stripped sequential_sum
     (\<lambda>p. if p = ''a.nii'' then Inr zero_bordered else Inr uniform_ones)
     [''a.nii'', ''b.nii''] = Inr False \<and>
   is_skull_stripped sequential_sum (\<lambda>p. Inr zero_bordered) [''a.nii'', ''b.nii''] = Inr True"
proof -
  let ?mixed = "\<lambda>p. if p = ''a.nii'' then Inr zero_bordered else Inr uniform_ones"
  note sz = sequential_sum_zeros
  have z0: "float32_faces_sum sequential_sum zero_bordered = Finite 0"
    using zero_bordered_faces sz by (rule faces_zero_sum)
  have lz: "less_int (Finite 0) 10" by (simp add: unit_exponent_def)
  have l6: "\<not> less_int (float32_of_int 600) 10"
    by (simp add: float32_of_int_def unit_exponent_def)
  have a: "check_img sequential_sum (\<lambda>p. Inr zero_bordered) ''sub-01_T2w.nii.gz'' = Inr True"
    using is_skull_stripped_rule [of "\<lambda>p. Inr zero_bordered" "''sub-01_T2w.nii.gz''"
        zero_bordered sequential_sum "[]" "[]"] zero_bordered_faces sz
    by blast
  have b: "check_img sequential_sum (\<lambda>p. Inr uniform_ones) ''sub-01_T2w.nii.gz'' = Inr False"
    using is_skull_stripped_rule [of "\<lambda>p. Inr uniform_ones" "''sub-01_T2w.nii.gz''"
        uniform_ones sequential_sum "[]" "[]"] uniform_ones_faces l6
    by simp
  have c: "is_skull_stripped sequential_sum ?mixed [''a.nii'', ''b.nii''] = Inr False"
    using is_skull_stripped_rule [of ?mixed "''a.nii''" zero_bordered sequential_sum
        "[''a.nii'', ''b.nii'']" "[zero_bordered, uniform_ones]"]
      zero_bordered_faces(1) uniform_ones_faces z0 lz l6
    by (simp del: is_skull_stripped.simps less_int.simps)
  have d: "is_skull_stripped sequential_sum (\<lambda>p. Inr zero_bordered) [''a.nii'', ''b.nii''] =
      Inr True"
    using is_skull_stripped_rule [of "\<lambda>p. Inr zero_bordered" "''a.nii''" zero_bordered
        sequential_sum "[''a.nii'', ''b.nii'']" "[zero_bordered, zero_bordered]"]
      zero_bordered_faces(1) z0 lz
    by (simp del: is_skull_stripped.simps less_int.simps)
  from zero_bordered_faces uniform_ones_faces sz a b c d show ?thesis by simp
qed

text \<open>
  With exact sums the rule fails: the faces of \<open>near_ten\<close> add up to more than 10, but
  each binary32 addition of \<open>2\<^sup>-\<^sup>2\<^sup>2\<close> to \<open>10 - 2\<^sup>-\<^sup>2\<^sup>0\<close> rounds back, and the image
  is classified skull-stripped. Every slice of this volume has a single non-zero voxel,
  so its slice sums do not depend on the order in which a reduction adds.
\<close>

theorem exact_sum_above_ten_stripped:
  "units (float32_of_int 10) \<le> exact_faces_units near_ten \<and>
   check_img sequential_sum (\<lambda>p. Inr near_ten) ''sub-01_T2w.nii.gz'' = Inr True"
proof -
  have "check_img sequential_sum (\<lambda>p. Inr near_ten) ''sub-01_T2w.nii.gz'' =
      Inr (less_int (float32_faces_sum sequential_sum near_ten) 10)"
    by (rule check_img_nonempty) (simp_all add: near_ten_faces)
  then show ?thesis
    by (simp add: near_ten_faces float32_of_int_def unit_exponent_def)
qed

section \<open>Graph operations and the reuse path\<close>

lemma node_name_Node [simp]: "node_name (Node i n k) = n"
  by (simp add: Node_def)

lemma node_names [simp]:
  "node_name inputnode = ''inputnode''"
  "node_name outputnode = ''outputnode''"
  "node_name (init_anat_reports_wf fs od) = ''anat_reports_wf''"
  "node_name (init_anat_template_wf l n k) = ''anat_template_wf''"
  "node_name (init_rodent_brain_extraction_wf t n) = ''brain_extraction_wf''"
  "node_name (init_anat_norm_wf dbg n ts) = ''anat_norm_wf''"
  "node_name (init_anat_derivatives_wf r fs k od) = ''anat_derivatives_wf''"
  by (simp_all add: inputnode_def outputnode_def init_anat_reports_wf_def
      init_anat_template_wf_def init_rodent_brain_extraction_wf_def init_anat_norm_wf_def
      init_anat_derivatives_wf_def)

lemma prelude_graph:
  "connect (reports_connections (init_anat_reports_wf fs od)) (Workflow n) =
     \<lparr>wf_name = n, wf_desc = None,
      nodes = [outputnode, init_anat_reports_wf fs od], edges = reports_edges\<rparr>"
  by (simp add: connect_def reports_connections_def connect1_def add_node_def has_node_def
      Workflow_def Let_def reports_edges_def)

lemma probe_calls_assemble [simp]:
  "probe_calls (assemble a fs r b t v w calls) = calls"
  by (simp add: assemble_def Let_def)

lemma derivatives_assemble [simp]:
  "derivatives (assemble a fs r b t v w calls) = existing_derivatives a"
  by (simp add: assemble_def Let_def)

lemma outcome_assemble [simp]:
  "outcome (assemble a False r b t v w calls) = Inr (Some (graph (assemble a False r b t v w calls)))"
  by (simp add: assemble_def Let_def)

lemma probe_calls_reuse [simp]: "probe_calls (reuse_derivatives e r w d) = []"
  by (simp add: reuse_derivatives_def Let_def split: sum.splits prod.splits)

lemma derivatives_reuse:
  "derivatives (reuse_derivatives e r w d) = Some (filter (\<lambda>kv. fst kv \<noteq> ''template'') d)"
proof (cases "map_of d ''template''")
  case None
  then have "''template'' \<notin> fst ` set d" by (simp add: map_of_eq_None_iff)
  then have "filter (\<lambda>kv. fst kv \<noteq> ''template'') d = d"
    by (force simp add: filter_id_conv)
  with None show ?thesis
    by (simp add: reuse_derivatives_def dict_pop_def Let_def)
next
  case (Some v)
  then show ?thesis
    by (simp add: reuse_derivatives_def dict_pop_def Let_def split: sum.splits)
qed

lemma probe_calls_init:
  "probe_calls (init_anat_preproc_wf e a) =
     (if existing_derivatives a = None \<and> skull_strip_mode a = ''auto'' then [t2w a] else [])"
  by (simp add: init_anat_preproc_wf_def compute_def Let_def split: option.splits sum.splits)

lemma derivatives_init:
  "derivatives (init_anat_preproc_wf e a) =
     map_option (filter (\<lambda>kv. fst kv \<noteq> ''template'')) (existing_derivatives a)"
  by (simp add: init_anat_preproc_wf_def compute_def Let_def derivatives_reuse
      split: option.splits sum.splits)

lemma assemble_freesurfer:
  "assemble (a\<lparr>freesurfer := b\<rparr>) fs r bn t v w calls = assemble a fs r bn t v w calls"
  by (simp add: assemble_def Let_def)

lemma compute_freesurfer:
  "compute e (a\<lparr>freesurfer := b\<rparr>) fs r w = compute e a fs r w"
  by (simp add: compute_def Let_def assemble_freesurfer split: sum.splits)

lemma freesurfer_ignored:
  "init_anat_preproc_wf e (a\<lparr>freesurfer := b\<rparr>) = init_anat_preproc_wf e a"
  by (simp add: init_anat_preproc_wf_def Let_def compute_freesurfer split: option.splits)

lemma never_returns_None:
  "outcome (init_anat_preproc_wf e a) \<noteq> Inr None"
  by (simp add: init_anat_preproc_wf_def compute_def reuse_derivatives_def Let_def
      split: option.splits sum.splits prod.splits)

lemma upd_self: "(\<lambda>n. if node_name n = nm then n\<lparr>inputs := inputs n\<rparr> else n) = (\<lambda>n. n)"
  by (rule ext) simp

lemma fold_set_input:
  "fold (\<lambda>(f, v). set_input nm f v) kvs w =
     w\<lparr>nodes := map (\<lambda>n. if node_name n = nm
                  then n\<lparr>inputs := fold (\<lambda>(f, v). AList.update f v) kvs (inputs n)\<rparr>
                  else n) (nodes w)\<rparr>"
proof (induction kvs arbitrary: w)
  case Nil
  show ?case by (simp add: upd_self cong: if_cong)
next
  case (Cons kv kvs)
  obtain f v where kv: "kv = (f, v)" by (cases kv)
  have "fold (\<lambda>(f, v). set_input nm f v) (kv # kvs) w =
        fold (\<lambda>(f, v). set_input nm f v) kvs (set_input nm f v w)"
    by (simp add: kv)
  also have "\<dots> = (set_input nm f v w)\<lparr>nodes := map (\<lambda>n. if node_name n = nm
                  then n\<lparr>inputs := fold (\<lambda>(f, v). AList.update f v) kvs (inputs n)\<rparr>
                  else n) (nodes (set_input nm f v w))\<rparr>"
    by (rule Cons.IH)
  also have "\<dots> = w\<lparr>nodes := map (\<lambda>n. if node_name n = nm
                  then n\<lparr>inputs := fold (\<lambda>(f, v). AList.update f v) (kv # kvs) (inputs n)\<rparr>
                  else n) (nodes w)\<rparr>"
    by (simp add: kv set_input_def o_def cong: if_cong)
  finally show ?case .
qed


lemma map_of_fold_update:
  "map_of (fold (\<lambda>(f, v). AList.update f v) kvs al) k =
     (case map_of (rev kvs) k of Some v \<Rightarrow> Some v | None \<Rightarrow> map_of al k)"
proof (induction kvs arbitrary: al)
  case Nil
  show ?case by simp
next
  case (Cons kv kvs)
  obtain f v where kv: "kv = (f, v)" by (cases kv)
  show ?case
    by (simp add: kv Cons.IH AList.update_conv' map_add_def split: option.splits)
qed

lemma map_of_rev_distinct:
  "distinct (map fst kvs) \<Longrightarrow> map_of (rev kvs) = map_of kvs"
proof (induction kvs)
  case Nil
  show ?case by simp
next
  case (Cons kv kvs)
  obtain f v where kv: "kv = (f, v)" by (cases kv)
  from Cons.prems have nf: "f \<notin> fst ` set kvs" and d: "distinct (map fst kvs)"
    by (simp_all add: kv)
  from nf have "map_of kvs f = None" by (simp add: map_of_eq_None_iff)
  then show ?case
    using Cons.IH [OF d]
    by (auto simp add: kv map_add_def fun_eq_iff split: option.splits)
qed

lemma map_of_without:
  "map_of (filter (\<lambda>kv. fst kv \<noteq> k) d) k' = (if k' = k then None else map_of d k')"
  by (induction d) auto

lemma distinct_without:
  "distinct (map fst d) \<Longrightarrow> distinct (map fst (filter (\<lambda>kv. fst kv \<noteq> k) d))"
  by (induction d) auto

lemma inputs_fresh [simp]:
  "inputs outputnode = []" "inputs (init_anat_reports_wf fs od) = []"
  by (simp_all add: outputnode_def init_anat_reports_wf_def Node_def)

lemma reuse_step_inputs:
  "fold (\<lambda>(f, v). set_input ''outputnode'' f v) d'
     (set_input ''outputnode'' ''template'' templates
        \<lparr>wf_name = n, wf_desc = x, nodes = [outputnode, init_anat_reports_wf fs od],
         edges = es\<rparr>) =
   \<lparr>wf_name = n, wf_desc = x,
    nodes = [outputnode\<lparr>inputs := fold (\<lambda>(f, v). AList.update f v) d'
                                       [(''template'', templates)]\<rparr>,
             init_anat_reports_wf fs od],
    edges = es\<rparr>"
  by (simp add: fold_set_input) (simp add: set_input_def)

lemma reuse_step_connect:
  "connect (reuse_connections r ts ss)
     \<lparr>wf_name = n, wf_desc = x, nodes = [o', r'], edges = es\<rparr> = G"
  if "node_name o' = ''outputnode''" "node_name r' = ''anat_reports_wf''"
     "node_name r = ''anat_reports_wf''" "node_name ts = ''templatesource''"
     "node_name ss = ''stdselect''"
     "G = \<lparr>wf_name = n, wf_desc = x, nodes = [o', r', inputnode, ts, ss],
           edges = es @ reuse_edges\<rparr>"
  using that
  by (simp add: connect_def reuse_connections_def connect1_def add_node_def has_node_def
      same_def reuse_edges_def Let_def)


lemma reuse_returns:
  assumes ex: "existing_derivatives a = Some d"
    and tpl: "map_of d ''template'' = Some templates"
    and pre: "map_of d ''t2w_preproc'' = Some preproc"
    and d': "d' = filter (\<lambda>kv. fst kv \<noteq> ''template'') d"
    and G: "G = reused_graph e a d' templates preproc"
  shows "init_anat_preproc_wf e a =
     \<lparr>outcome = Inr (Some G), graph = G, derivatives = Some d', probe_calls = []\<rparr>"
proof -
  have pre': "map_of d' ''t2w_preproc'' = Some preproc"
    by (simp add: d' map_of_without pre)
  have pop: "dict_pop d ''template'' = Inr (templates, d')"
    by (simp add: dict_pop_def tpl d')
  have get: "dict_getitem d' ''t2w_preproc'' = Inr preproc"
    by (simp add: dict_getitem_def pre')
  have src: "set_input ''anat_reports_wf'' ''inputnode.source_file'' v
      \<lparr>wf_name = n, wf_desc = Some ReusedText,
       nodes = [outputnode\<lparr>inputs := i\<rparr>, init_anat_reports_wf False od],
       edges = reports_edges\<rparr> =
      \<lparr>wf_name = n, wf_desc = Some ReusedText,
       nodes = [outputnode\<lparr>inputs := i\<rparr>,
                (init_anat_reports_wf False od)\<lparr>inputs := [(''inputnode.source_file'', v)]\<rparr>],
       edges = reports_edges\<rparr>" for v i n od
    by (simp add: set_input_def)
  have "reuse_derivatives e (init_anat_reports_wf False (output_dir a))
           \<lparr>wf_name = name a, wf_desc = None,
            nodes = [outputnode, init_anat_reports_wf False (output_dir a)],
            edges = reports_edges\<rparr> d =
     \<lparr>outcome = Inr (Some G), graph = G, derivatives = Some d', probe_calls = []\<rparr>"
    unfolding reuse_derivatives_def Let_def pop
    by (simp add: get reuse_step_inputs src G reused_graph_def)
      (rule reuse_step_connect, simp_all)
  then show ?thesis
    by (simp add: init_anat_preproc_wf_def Let_def ex prelude_graph)
qed

lemma reuse_no_template:
  assumes ex: "existing_derivatives a = Some d"
    and tpl: "map_of d ''template'' = None"
  shows "init_anat_preproc_wf e a =
     \<lparr>outcome = Inl (KeyError ''template''),
      graph = \<lparr>wf_name = name a, wf_desc = Some ReusedText,
               nodes = [outputnode, init_anat_reports_wf False (output_dir a)],
               edges = reports_edges\<rparr>,
      derivatives = Some d, probe_calls = []\<rparr>"
  by (simp add: init_anat_preproc_wf_def Let_def ex prelude_graph reuse_derivatives_def
        dict_pop_def tpl)

lemma reuse_no_preproc:
  assumes ex: "existing_derivatives a = Some d"
    and tpl: "map_of d ''template'' = Some templates"
    and pre: "map_of d ''t2w_preproc'' = None"
    and d': "d' = filter (\<lambda>kv. fst kv \<noteq> ''template'') d"
  shows "init_anat_preproc_wf e a =
     \<lparr>outcome = Inl (KeyError ''t2w_preproc''),
      graph = \<lparr>wf_name = name a, wf_desc = Some ReusedText,
               nodes = [outputnode\<lparr>inputs := fold (\<lambda>(f, v). AList.update f v) d'
                                                [(''template'', templates)]\<rparr>,
                        init_anat_reports_wf False (output_dir a)],
               edges = reports_edges\<rparr>,
      derivatives = Some d', probe_calls = []\<rparr>"
proof -
  have pre': "map_of d' ''t2w_preproc'' = None"
    by (simp add: d' map_of_without pre)
  have pop: "dict_pop d ''template'' = Inr (templates, d')"
    by (simp add: dict_pop_def tpl d')
  have get: "dict_getitem d' ''t2w_preproc'' = Inl (KeyError ''t2w_preproc'')"
    by (simp add: dict_getitem_def pre')
  show ?thesis
    by (simp add: init_anat_preproc_wf_def Let_def ex prelude_graph reuse_derivatives_def
        pop get reuse_step_inputs)
qed

lemma example_probe:
  "is_skull_stripped (np_sum example_env) (nb_load example_env) [''sub-01_T2w.nii.gz''] =
     Inr True"
proof -
  have "float32_faces_sum sequential_sum zero_bordered = Finite 0"
    using zero_bordered_faces sequential_sum_zeros by (rule faces_zero_sum)
  then show ?thesis
    using is_skull_stripped_loaded [of "nb_load example_env" "[''sub-01_T2w.nii.gz'']"
        "[zero_bordered]" sequential_sum] zero_bordered_faces(1)
    by (simp add: example_env_def unit_exponent_def del: is_skull_stripped.simps)
qed

lemma compute_raises:
  assumes "skull_strip_mode a = ''auto''"
    and "is_skull_stripped (np_sum e) (nb_load e) (t2w a) = Inr True"
  shows "compute e a fs r w =
     \<lparr>outcome = Inl (NotImplementedError ''Cannot run on already skull-stripped images.''),
      graph = w\<lparr>wf_desc := Some (ComputedText (length (t2w a)) (or_unknown (ants_version e))
                   (or_unknown (fsl_version e)) (fullname (skull_strip_template a)))\<rparr>,
      derivatives = existing_derivatives a, probe_calls = [t2w a]\<rparr>"
  using assms by (simp add: compute_def Let_def)

lemma stripped_raises:
  assumes "existing_derivatives a = None"
    and "skull_strip_mode a = ''auto''"
    and "is_skull_stripped (np_sum e) (nb_load e) (t2w a) = Inr True"
  shows "init_anat_preproc_wf e a =
     \<lparr>outcome = Inl (NotImplementedError ''Cannot run on already skull-stripped images.''),
      graph = \<lparr>wf_name = name a,
               wf_desc = Some (ComputedText (length (t2w a)) (or_unknown (ants_version e))
                   (or_unknown (fsl_version e)) (fullname (skull_strip_template a))),
               nodes = [outputnode, init_anat_reports_wf False (output_dir a)],
               edges = reports_edges\<rparr>,
      derivatives = None, probe_calls = [t2w a]\<rparr>"
  using assms
  by (simp add: init_anat_preproc_wf_def Let_def prelude_graph compute_raises)

lemma interface_simps [simp]:
  "interface outputnode = IdentityInterface outputnode_fields"
  "interface inputnode = IdentityInterface inputnode_fields"
  "interface (init_anat_reports_wf fs od) =
     SubWorkflow ''init_anat_reports_wf'' [(''freesurfer'', PBool fs), (''output_dir'', PStr od)]"
  "interface (Node i n k) = i"
  by (simp_all add: outputnode_def inputnode_def init_anat_reports_wf_def Node_def)

lemma reused_graph_no_pu: "no_processing_unit (reused_graph e a d' t p)"
  by (simp add: no_processing_unit_def reused_graph_def)

lemma reused_graph_names:
  "map node_name (nodes (reused_graph e a d' t p)) =
     [''outputnode'', ''anat_reports_wf'', ''inputnode'', ''templatesource'', ''stdselect'']"
  by (simp add: reused_graph_def)

lemma reused_graph_outputs:
  assumes "distinct (map fst d')"
  shows "node_inputs (reused_graph e a d' t p) ''outputnode'' f =
     (case map_of d' f of Some v \<Rightarrow> Some v
      | None \<Rightarrow> if f = ''template'' then Some t else None)"
  by (simp add: node_inputs_def get_node_def reused_graph_def map_of_fold_update
      map_of_rev_distinct [OF assms] split: option.splits)

lemma reused_graph_source_file:
  "node_inputs (reused_graph e a d' t p) ''anat_reports_wf'' ''inputnode.source_file'' =
     Some (fix_multi_source_name e (PList [p]) ''T2w'')"
  by (simp add: node_inputs_def get_node_def reused_graph_def)

lemma reused_graph_iterables:
  "map_option iterables (get_node (reused_graph e a d' t p) ''templatesource'') =
     Some [(''template'', t)]"
  by (simp add: get_node_def reused_graph_def Node_def)

lemma reused_graph_unbound:
  assumes "map_of d' f = None" "f \<noteq> ''template''"
  shows "node_inputs (reused_graph e a d' t p) ''outputnode'' f = None"
proof -
  from assms(1) have "f \<notin> fst ` set (rev d')" by (simp add: map_of_eq_None_iff)
  then have "map_of (rev d') f = None" by (simp add: map_of_eq_None_iff)
  then show ?thesis
    using assms(2)
    by (simp add: node_inputs_def get_node_def reused_graph_def map_of_fold_update)
qed

section \<open>Properties of the builder\<close>

text \<open>
  Claim C2 (amended). In mode auto without existing derivatives, when the probe finds
  the images already skull-stripped, the builder raises NotImplementedError and returns
  no graph; at that moment the local workflow holds the output interface node and the
  reporting sub-workflow with their three connections, and no Processing Unit.
\<close>

theorem already_stripped_raises:
  assumes "existing_derivatives a = None"
    and "skull_strip_mode a = ''auto''"
    and "is_skull_stripped (np_sum e) (nb_load e) (t2w a) = Inr True"
  shows "outcome (init_anat_preproc_wf e a) =
           Inl (NotImplementedError ''Cannot run on already skull-stripped images.'') \<and>
         nodes (graph (init_anat_preproc_wf e a)) =
           [outputnode, init_anat_reports_wf False (output_dir a)] \<and>
         edges (graph (init_anat_preproc_wf e a)) = reports_edges \<and>
         no_processing_unit (graph (init_anat_preproc_wf e a))"
  by (simp add: stripped_raises [OF assms] no_processing_unit_def)

theorem already_stripped_raises_witness:
  "existing_derivatives (example_args\<lparr>skull_strip_mode := ''auto''\<rparr>) = None \<and>
   skull_strip_mode (example_args\<lparr>skull_strip_mode := ''auto''\<rparr>) = ''auto'' \<and>
   is_skull_stripped (np_sum example_env) (nb_load example_env)
     (t2w (example_args\<lparr>skull_strip_mode := ''auto''\<rparr>)) = Inr True \<and>
   outcome (init_anat_preproc_wf example_env (example_args\<lparr>skull_strip_mode := ''auto''\<rparr>)) =
     Inl (NotImplementedError ''Cannot run on already skull-stripped images.'') \<and>
   edges (graph (init_anat_preproc_wf example_env
     (example_args\<lparr>skull_strip_mode := ''auto''\<rparr>))) = reports_edges"
proof -
  have h1: "existing_derivatives (example_args\<lparr>skull_strip_mode := ''auto''\<rparr>) = None"
    by (simp add: example_args_def)
  have h2: "skull_strip_mode (example_args\<lparr>skull_strip_mode := ''auto''\<rparr>) = ''auto''"
    by simp
  have h3: "is_skull_stripped (np_sum example_env) (nb_load example_env)
      (t2w (example_args\<lparr>skull_strip_mode := ''auto''\<rparr>)) = Inr True"
    using example_probe by (simp add: example_args_def del: is_skull_stripped.simps)
  from already_stripped_raises [OF h1 h2 h3] h1 h2 h3 show ?thesis by blast
qed

theorem already_stripped_graph_not_empty:
  "outcome (init_anat_preproc_wf example_env (example_args\<lparr>skull_strip_mode := ''auto''\<rparr>)) =
     Inl (NotImplementedError ''Cannot run on already skull-stripped images.'') \<and>
   map node_name (nodes (graph (init_anat_preproc_wf example_env
     (example_args\<lparr>skull_strip_mode := ''auto''\<rparr>)))) = [''outputnode'', ''anat_reports_wf'']"
proof -
  have h1: "existing_derivatives (example_args\<lparr>skull_strip_mode := ''auto''\<rparr>) = None"
    by (simp add: example_args_def)
  have h2: "skull_strip_mode (example_args\<lparr>skull_strip_mode := ''auto''\<rparr>) = ''auto''"
    by simp
  have h3: "is_skull_stripped (np_sum example_env) (nb_load example_env)
      (t2w (example_args\<lparr>skull_strip_mode := ''auto''\<rparr>)) = Inr True"
    using example_probe by (simp add: example_args_def del: is_skull_stripped.simps)
  show ?thesis
    by (simp add: stripped_raises [OF h1 h2 h3])
qed

text \<open>
  Claim C3 (amended). With a supplied DerivativeSet the builder raises KeyError exactly
  when the entry \<^verbatim>\<open>template\<close> or the entry \<^verbatim>\<open>t2w_preproc\<close> is missing. With
  both present the graph is returned, and a field is bound on the output interface
  exactly when the set has an entry for it: any other missing field is left unbound. In
  every case the graph holds no Processing Unit, so cached and computed fields are never
  mixed.
\<close>

theorem derivative_keys_required:
  assumes "existing_derivatives a = Some d"
  shows "(map_of d ''template'' = None \<longrightarrow>
            outcome (init_anat_preproc_wf e a) = Inl (KeyError ''template'')) \<and>
         (map_of d ''template'' \<noteq> None \<and> map_of d ''t2w_preproc'' = None \<longrightarrow>
            outcome (init_anat_preproc_wf e a) = Inl (KeyError ''t2w_preproc'')) \<and>
         (map_of d ''template'' \<noteq> None \<and> map_of d ''t2w_preproc'' \<noteq> None \<longrightarrow>
            outcome (init_anat_preproc_wf e a) = Inr (Some (graph (init_anat_preproc_wf e a))) \<and>
            (\<forall>f. map_of d f = None \<longrightarrow>
               node_inputs (graph (init_anat_preproc_wf e a)) ''outputnode'' f = None) \<and>
            (\<forall>f. map_of d f \<noteq> None \<longrightarrow>
               node_inputs (graph (init_anat_preproc_wf e a)) ''outputnode'' f \<noteq> None)) \<and>
         no_processing_unit (graph (init_anat_preproc_wf e a))"
proof (cases "map_of d ''template''")
  case None
  then show ?thesis
    by (simp add: reuse_no_template [OF assms None] no_processing_unit_def)
next
  case tpl: (Some templates)
  show ?thesis
  proof (cases "map_of d ''t2w_preproc''")
    case None
    then show ?thesis
      by (simp add: tpl reuse_no_preproc [OF assms tpl None refl] no_processing_unit_def)
  next
    case (Some preproc)
    let ?d' = "filter (\<lambda>kv. fst kv \<noteq> ''template'') d"
    let ?G = "reused_graph e a ?d' templates preproc"
    have r: "init_anat_preproc_wf e a =
        \<lparr>outcome = Inr (Some ?G), graph = ?G, derivatives = Some ?d', probe_calls = []\<rparr>"
      by (rule reuse_returns [OF assms tpl Some refl refl])
    have unbound: "node_inputs ?G ''outputnode'' f = None" if "map_of d f = None" for f
    proof (rule reused_graph_unbound)
      show "map_of ?d' f = None" using that by (simp add: map_of_without)
      show "f \<noteq> ''template''" using that tpl by auto
    qed
    have bound: "node_inputs ?G ''outputnode'' f \<noteq> None" if "map_of d f \<noteq> None" for f
    proof (cases "f = ''template''")
      case True
      then show ?thesis
        by (simp add: node_inputs_def get_node_def reused_graph_def map_of_fold_update
            split: option.splits)
    next
      case False
      with that have "map_of ?d' f \<noteq> None" by (simp add: map_of_without)
      then have "f \<in> fst ` set (rev ?d')" by (simp add: map_of_eq_None_iff)
      then have "map_of (rev ?d') f \<noteq> None" by (simp add: map_of_eq_None_iff)
      then show ?thesis
        by (auto simp add: node_inputs_def get_node_def reused_graph_def map_of_fold_update
            split: option.splits)
    qed
    show ?thesis
      using unbound bound by (simp add: tpl Some r reused_graph_no_pu)
  qed
qed

theorem derivative_keys_required_witness:
  "existing_derivatives (example_args\<lparr>existing_derivatives := Some partial_derivatives\<rparr>) =
     Some partial_derivatives \<and>
   map_of partial_derivatives ''template'' \<noteq> None \<and>
   map_of partial_derivatives ''t2w_preproc'' \<noteq> None \<and>
   map_of partial_derivatives ''std_preproc'' = None \<and>
   outcome (init_anat_preproc_wf example_env
       (example_args\<lparr>existing_derivatives := Some partial_derivatives\<rparr>)) =
     Inr (Some (graph (init_anat_preproc_wf example_env
       (example_args\<lparr>existing_derivatives := Some partial_derivatives\<rparr>)))) \<and>
   node_inputs (graph (init_anat_preproc_wf example_env
       (example_args\<lparr>existing_derivatives := Some partial_derivatives\<rparr>)))
     ''outputnode'' ''std_preproc'' = None \<and>
   outcome (init_anat_preproc_wf example_env
       (example_args\<lparr>existing_derivatives := Some [(''t2w_preproc'', PStr ''x'')]\<rparr>)) =
     Inl (KeyError ''template'') \<and>
   outcome (init_anat_preproc_wf example_env
       (example_args\<lparr>existing_derivatives := Some [(''template'', PList [])]\<rparr>)) =
     Inl (KeyError ''t2w_preproc'')"
proof -
  have m: "map_of partial_derivatives ''template'' \<noteq> None"
    "map_of partial_derivatives ''t2w_preproc'' \<noteq> None"
    "map_of partial_derivatives ''std_preproc'' = None"
    by (simp_all add: partial_derivatives_def)
  from derivative_keys_required [of
      "example_args\<lparr>existing_derivatives := Some partial_derivatives\<rparr>"
      partial_derivatives example_env] m
  have p: "outcome (init_anat_preproc_wf example_env
       (example_args\<lparr>existing_derivatives := Some partial_derivatives\<rparr>)) =
     Inr (Some (graph (init_anat_preproc_wf example_env
       (example_args\<lparr>existing_derivatives := Some partial_derivatives\<rparr>))))"
    "node_inputs (graph (init_anat_preproc_wf example_env
       (example_args\<lparr>existing_derivatives := Some partial_derivatives\<rparr>)))
     ''outputnode'' ''std_preproc'' = None"
    by simp_all
  have q: "outcome (init_anat_preproc_wf example_env
       (example_args\<lparr>existing_derivatives := Some [(''t2w_preproc'', PStr ''x'')]\<rparr>)) =
     Inl (KeyError ''template'')"
    using derivative_keys_required [of
      "example_args\<lparr>existing_derivatives := Some [(''t2w_preproc'', PStr ''x'')]\<rparr>"
      "[(''t2w_preproc'', PStr ''x'')]" example_env]
    by simp
  have r: "outcome (init_anat_preproc_wf example_env
       (example_args\<lparr>existing_derivatives := Some [(''template'', PList [])]\<rparr>)) =
     Inl (KeyError ''t2w_preproc'')"
    using derivative_keys_required [of
      "example_args\<lparr>existing_derivatives := Some [(''template'', PList [])]\<rparr>"
      "[(''template'', PList [])]" example_env]
    by simp
  from m p q r show ?thesis by simp
qed

theorem partial_derivatives_accepted:
  "map_of partial_derivatives ''std_preproc'' = None \<and>
   outcome (init_anat_preproc_wf example_env
       (example_args\<lparr>existing_derivatives := Some partial_derivatives\<rparr>)) =
     Inr (Some (graph (init_anat_preproc_wf example_env
       (example_args\<lparr>existing_derivatives := Some partial_derivatives\<rparr>))))"
proof -
  have "init_anat_preproc_wf example_env
       (example_args\<lparr>existing_derivatives := Some partial_derivatives\<rparr>) =
     \<lparr>outcome = Inr (Some G), graph = G, derivatives = Some d', probe_calls = []\<rparr>"
    if "d' = filter (\<lambda>kv. fst kv \<noteq> ''template'') partial_derivatives"
      and "G = reused_graph example_env
        (example_args\<lparr>existing_derivatives := Some partial_derivatives\<rparr>) d'
        (PList [PStr ''Fischer344'']) (PStr ''/out/sub-01_desc-preproc_T2w.nii.gz'')"
    for d' G
    by (rule reuse_returns [OF _ _ _ that]) (simp_all add: partial_derivatives_def)
  then show ?thesis
    by (simp add: partial_derivatives_def)
qed

lemma complete_keys:
  assumes "complete d"
  shows "\<exists>t p. map_of d ''template'' = Some t \<and> map_of d ''t2w_preproc'' = Some p"
proof -
  from assms have "''template'' \<in> fst ` set d" "''t2w_preproc'' \<in> fst ` set d"
    by (simp_all add: complete_def outputnode_fields_def)
  then have "map_of d ''template'' \<noteq> None" "map_of d ''t2w_preproc'' \<noteq> None"
    by (simp_all add: map_of_eq_None_iff)
  then show ?thesis by auto
qed

lemma complete_field:
  assumes "complete d" "f \<in> set outputnode_fields"
  shows "map_of d f \<noteq> None"
proof -
  from assms have "f \<in> fst ` set d"
    by (simp add: complete_def list_all_iff)
  then show ?thesis by (simp add: map_of_eq_None_iff)
qed

text \<open>
  Claim C4. For a complete DerivativeSet the builder returns a graph of five nodes, none
  of them a Processing Unit: the output interface has every entry of the set bound as an
  input, the reporting sub-workflow receives its source file from the cached
  \<^verbatim>\<open>t2w_preproc\<close>, and all its connections come from the interface nodes and the
  key selector.
\<close>

theorem complete_derivatives_pass_through:
  assumes "existing_derivatives a = Some d"
    and "distinct (map fst d)"
    and "complete d"
  shows "outcome (init_anat_preproc_wf e a) = Inr (Some (graph (init_anat_preproc_wf e a))) \<and>
     map node_name (nodes (graph (init_anat_preproc_wf e a))) =
       [''outputnode'', ''anat_reports_wf'', ''inputnode'', ''templatesource'', ''stdselect''] \<and>
     no_processing_unit (graph (init_anat_preproc_wf e a)) \<and>
     (\<forall>f. node_inputs (graph (init_anat_preproc_wf e a)) ''outputnode'' f = map_of d f) \<and>
     (\<forall>f \<in> set outputnode_fields. map_of d f \<noteq> None) \<and>
     (\<exists>p. map_of d ''t2w_preproc'' = Some p \<and>
        node_inputs (graph (init_anat_preproc_wf e a)) ''anat_reports_wf''
            ''inputnode.source_file'' =
          Some (fix_multi_source_name e (PList [p]) ''T2w'')) \<and>
     edges (graph (init_anat_preproc_wf e a)) = reports_edges @ reuse_edges"
proof -
  from complete_keys [OF assms(3)] obtain t p
    where t: "map_of d ''template'' = Some t" and p: "map_of d ''t2w_preproc'' = Some p"
    by blast
  let ?d' = "filter (\<lambda>kv. fst kv \<noteq> ''template'') d"
  let ?G = "reused_graph e a ?d' t p"
  have r: "init_anat_preproc_wf e a =
      \<lparr>outcome = Inr (Some ?G), graph = ?G, derivatives = Some ?d', probe_calls = []\<rparr>"
    by (rule reuse_returns [OF assms(1) t p refl refl])
  have dd: "distinct (map fst ?d')"
    using assms(2) by (rule distinct_without)
  have outs: "node_inputs ?G ''outputnode'' f = map_of d f" for f
    by (simp add: reused_graph_outputs [OF dd] map_of_without t split: option.splits)
  have flds: "\<forall>f \<in> set outputnode_fields. map_of d f \<noteq> None"
    using complete_field [OF assms(3)] by blast
  have "edges ?G = reports_edges @ reuse_edges"
    by (simp add: reused_graph_def)
  with outs flds show ?thesis
    by (simp add: r reused_graph_names reused_graph_no_pu reused_graph_source_file p)
qed

lemma complete_example:
  "distinct (map fst complete_derivatives)" "complete complete_derivatives"
  by (simp_all add: complete_derivatives_def complete_def outputnode_fields_def)

theorem complete_derivatives_pass_through_witness:
  "existing_derivatives (example_args\<lparr>existing_derivatives := Some complete_derivatives\<rparr>) =
     Some complete_derivatives \<and>
   distinct (map fst complete_derivatives) \<and>
   complete complete_derivatives \<and>
   no_processing_unit (graph (init_anat_preproc_wf example_env
     (example_args\<lparr>existing_derivatives := Some complete_derivatives\<rparr>))) \<and>
   node_inputs (graph (init_anat_preproc_wf example_env
     (example_args\<lparr>existing_derivatives := Some complete_derivatives\<rparr>)))
       ''outputnode'' ''std_preproc'' =
     Some (PList [PStr ''/out/sub-01_space-Fischer344_T2w.nii.gz'']) \<and>
   node_inputs (graph (init_anat_preproc_wf example_env
     (example_args\<lparr>existing_derivatives := Some complete_derivatives\<rparr>)))
       ''outputnode'' ''template'' = Some (PList [PStr ''Fischer344''])"
proof -
  let ?a = "example_args\<lparr>existing_derivatives := Some complete_derivatives\<rparr>"
  have h: "existing_derivatives ?a = Some complete_derivatives" by simp
  have v: "map_of complete_derivatives ''std_preproc'' =
      Some (PList [PStr ''/out/sub-01_space-Fischer344_T2w.nii.gz''])"
    "map_of complete_derivatives ''template'' = Some (PList [PStr ''Fischer344''])"
    by (simp_all add: complete_derivatives_def)
  from complete_derivatives_pass_through [OF h complete_example, of example_env] v h
    complete_example
  show ?thesis by simp
qed

text \<open>
  Claim C6 (amended). The probe classifier is never invoked in mode skip or force; in
  mode auto it is invoked, once and on the list of input images, exactly when no
  existing derivatives are supplied; with existing derivatives it is never invoked.
\<close>

theorem probe_invocation:
  "(skull_strip_mode a = ''skip'' \<or> skull_strip_mode a = ''force'' \<longrightarrow>
      probe_calls (init_anat_preproc_wf e a) = []) \<and>
   (skull_strip_mode a = ''auto'' \<and> existing_derivatives a = None \<longrightarrow>
      probe_calls (init_anat_preproc_wf e a) = [t2w a]) \<and>
   (existing_derivatives a \<noteq> None \<longrightarrow> probe_calls (init_anat_preproc_wf e a) = [])"
  by (auto simp add: probe_calls_init)

theorem probe_invocation_witness:
  "skull_strip_mode example_args = ''force'' \<and>
   probe_calls (init_anat_preproc_wf example_env example_args) = [] \<and>
   existing_derivatives (example_args\<lparr>skull_strip_mode := ''auto''\<rparr>) = None \<and>
   probe_calls (init_anat_preproc_wf example_env (example_args\<lparr>skull_strip_mode := ''auto''\<rparr>)) =
     [[''sub-01_T2w.nii.gz'']] \<and>
   probe_calls (init_anat_preproc_wf example_env
     (example_args\<lparr>existing_derivatives := Some partial_derivatives\<rparr>)) = []"
  using probe_invocation [of example_args example_env]
    probe_invocation [of "example_args\<lparr>skull_strip_mode := ''auto''\<rparr>" example_env]
    probe_invocation [of "example_args\<lparr>existing_derivatives := Some partial_derivatives\<rparr>"
      example_env]
  by (simp add: example_args_def)

theorem auto_with_derivatives_skips_probe:
  "skull_strip_mode (example_args\<lparr>skull_strip_mode := ''auto'',
       existing_derivatives := Some partial_derivatives\<rparr>) = ''auto'' \<and>
   probe_calls (init_anat_preproc_wf example_env
     (example_args\<lparr>skull_strip_mode := ''auto'',
        existing_derivatives := Some partial_derivatives\<rparr>)) = []"
  by (simp add: probe_calls_init)

text \<open>
  Claim C7 (amended). An empty template list is not refused: with a DerivativeSet whose
  \<^verbatim>\<open>template\<close> entry is the empty list (and a \<^verbatim>\<open>t2w_preproc\<close> entry) the
  builder returns the pass-through graph, whose \<^verbatim>\<open>templatesource\<close> node carries the
  empty list as its iterable.
\<close>

theorem empty_templates_accepted:
  assumes "existing_derivatives a = Some d"
    and "map_of d ''template'' = Some (PList [])"
    and "map_of d ''t2w_preproc'' = Some p"
  shows "outcome (init_anat_preproc_wf e a) = Inr (Some (graph (init_anat_preproc_wf e a))) \<and>
     map_option iterables (get_node (graph (init_anat_preproc_wf e a)) ''templatesource'') =
       Some [(''template'', PList [])]"
  by (simp add: reuse_returns [OF assms refl refl] reused_graph_iterables)

theorem empty_templates_accepted_witness:
  "existing_derivatives (example_args\<lparr>existing_derivatives := Some empty_template_derivatives\<rparr>)
     = Some empty_template_derivatives \<and>
   map_of empty_template_derivatives ''template'' = Some (PList []) \<and>
   map_of empty_template_derivatives ''t2w_preproc'' =
     Some (PStr ''/out/sub-01_desc-preproc_T2w.nii.gz'') \<and>
   map_option iterables (get_node (graph (init_anat_preproc_wf example_env
       (example_args\<lparr>existing_derivatives := Some empty_template_derivatives\<rparr>)))
     ''templatesource'') = Some [(''template'', PList [])]"
proof -
  let ?a = "example_args\<lparr>existing_derivatives := Some empty_template_derivatives\<rparr>"
  have h1: "existing_derivatives ?a = Some empty_template_derivatives" by simp
  have h2: "map_of empty_template_derivatives ''template'' = Some (PList [])"
    by (simp add: empty_template_derivatives_def)
  have h3: "map_of empty_template_derivatives ''t2w_preproc'' =
      Some (PStr ''/out/sub-01_desc-preproc_T2w.nii.gz'')"
    by (simp add: empty_template_derivatives_def)
  from empty_templates_accepted [OF h1 h2 h3, of example_env] h1 h2 h3
  show ?thesis by blast
qed

theorem empty_templates_no_error:
  "map_of empty_template_derivatives ''template'' = Some (PList []) \<and>
   outcome (init_anat_preproc_wf example_env
       (example_args\<lparr>existing_derivatives := Some empty_template_derivatives\<rparr>)) =
     Inr (Some (graph (init_anat_preproc_wf example_env
       (example_args\<lparr>existing_derivatives := Some empty_template_derivatives\<rparr>))))"
proof -
  let ?a = "example_args\<lparr>existing_derivatives := Some empty_template_derivatives\<rparr>"
  have h1: "existing_derivatives ?a = Some empty_template_derivatives" by simp
  have h2: "map_of empty_template_derivatives ''template'' = Some (PList [])"
    by (simp add: empty_template_derivatives_def)
  have h3: "map_of empty_template_derivatives ''t2w_preproc'' =
      Some (PStr ''/out/sub-01_desc-preproc_T2w.nii.gz'')"
    by (simp add: empty_template_derivatives_def)
  show ?thesis
    by (simp add: reuse_returns [OF h1 h2 h3 refl refl] h2)
qed

text \<open>
  Claim C8 (amended). The result of the builder is a function of its arguments, and the
  only argument it changes is a supplied DerivativeSet, from which it removes the entry
  \<^verbatim>\<open>template\<close>; every other entry stays, and without a DerivativeSet nothing is
  changed.
\<close>

theorem derivatives_after_call:
  "derivatives (init_anat_preproc_wf e a) =
     map_option (filter (\<lambda>kv. fst kv \<noteq> ''template'')) (existing_derivatives a)"
  by (rule derivatives_init)

theorem derivatives_after_call_witness:
  "derivatives (init_anat_preproc_wf example_env
       (example_args\<lparr>existing_derivatives := Some partial_derivatives\<rparr>)) =
     Some [(''t2w_preproc'', PStr ''/out/sub-01_desc-preproc_T2w.nii.gz'')] \<and>
   derivatives (init_anat_preproc_wf example_env example_args) = None"
  using derivatives_after_call [of example_env
      "example_args\<lparr>existing_derivatives := Some partial_derivatives\<rparr>"]
    derivatives_after_call [of example_env example_args]
  by (simp add: partial_derivatives_def example_args_def)

theorem derivatives_mutated:
  "derivatives (init_anat_preproc_wf example_env
       (example_args\<lparr>existing_derivatives := Some partial_derivatives\<rparr>)) \<noteq>
     existing_derivatives (example_args\<lparr>existing_derivatives := Some partial_derivatives\<rparr>)"
  by (simp add: derivatives_init partial_derivatives_def)

text \<open>
  Claim C9. The builder gives the same result, or raises the same error, whether its
  \<^verbatim>\<open>freesurfer\<close> argument is true or false, and it never runs off the end of its
  body, which is where a true \<^verbatim>\<open>freesurfer\<close> would lead.
\<close>

theorem freesurfer_argument_ignored:
  "init_anat_preproc_wf e (a\<lparr>freesurfer := True\<rparr>) =
     init_anat_preproc_wf e (a\<lparr>freesurfer := False\<rparr>) \<and>
   outcome (init_anat_preproc_wf e a) \<noteq> Inr None"
  by (simp add: freesurfer_ignored never_returns_None)

theorem freesurfer_argument_ignored_witness:
  "init_anat_preproc_wf example_env (example_args\<lparr>freesurfer := True\<rparr>) =
     init_anat_preproc_wf example_env (example_args\<lparr>freesurfer := False\<rparr>) \<and>
   outcome (init_anat_preproc_wf example_env example_args) \<noteq> Inr None"
  by (rule freesurfer_argument_ignored)

end
